theory Spec2Isabelle
  imports Main
begin

section \<open>The manifest as parsed JSON\<close>

text \<open>
  \<^verbatim>\<open>fs.readJson\<close> hands \<^verbatim>\<open>loadConfig\<close> the value that \<^verbatim>\<open>JSON.parse\<close> built: null, a
  boolean, a number, a string, an array or an object. The number type is left open as the
  type parameter \<open>'n\<close>: the schema only asks whether a value is a number, never which one.
  An object is the list of its own properties in insertion order, and a property is read
  with \<open>map_of\<close>; a JavaScript object holds each key once.
\<close>

datatype 'n json =
    JNull
  | JBool bool
  | JNum 'n
  | JStr string
  | JArr "'n json list"
  | JObj "(string \<times> 'n json) list"

text \<open>The values of \<^verbatim>\<open>Record<string, string | number | boolean>\<close>.\<close>

datatype 'n gval = GStr string | GNum 'n | GBool bool

type_synonym 'n globals_map = "string \<rightharpoonup> 'n gval"

text \<open>A template pointer \<^verbatim>\<open>{ id: string, target: string }\<close>; the field \<^verbatim>\<open>id\<close> is
  written \<open>id'\<close> because \<open>id\<close> is the identity function of HOL.\<close>

record template_pointer =
  id' :: string
  target :: string

section \<open>The schema combinators of zod that the loader uses\<close>

text \<open>
  zod is a library outside the repository. The embedding follows its documented behaviour
  for synchronous parsing: a schema receives the path walked so far and the value found
  there (\<open>None\<close> for \<^verbatim>\<open>undefined\<close>, which is what reading an absent property gives) and
  either returns the parsed data or the issues it raised. An object or an array parses all
  of its members and reports the issues of all of them, in the order of the shape or of
  the elements; a strict object then reports the keys outside its shape. Parsing succeeds
  exactly when no issue was raised.
\<close>

datatype ZodParsedType =
  T_string | T_number | T_boolean | T_null | T_undefined | T_array | T_object

fun getParsedType :: "'n json option \<Rightarrow> ZodParsedType" where
  "getParsedType None = T_undefined"
| "getParsedType (Some JNull) = T_null"
| "getParsedType (Some (JBool b)) = T_boolean"
| "getParsedType (Some (JNum n)) = T_number"
| "getParsedType (Some (JStr s)) = T_string"
| "getParsedType (Some (JArr xs)) = T_array"
| "getParsedType (Some (JObj kvs)) = T_object"

datatype path_elem = Key string | Index nat

datatype ZodIssue =
    invalid_type "path_elem list" ZodParsedType ZodParsedType
  | unrecognized_keys "path_elem list" "string list"
  | invalid_union "path_elem list" "ZodIssue list list"

type_synonym ('n, 'a) schema = "path_elem list \<Rightarrow> 'n json option \<Rightarrow> ZodIssue list + 'a"

fun issues :: "ZodIssue list + 'a \<Rightarrow> ZodIssue list" where
  "issues (Inl is) = is"
| "issues (Inr a) = []"

fun success :: "ZodIssue list + 'a \<Rightarrow> bool" where
  "success (Inl is) = False"
| "success (Inr a) = True"

definition z_string :: "('n, string) schema" where
  "z_string p v =
     (case v of Some (JStr s) \<Rightarrow> Inr s
      | _ \<Rightarrow> Inl [invalid_type p T_string (getParsedType v)])"

definition z_number :: "('n, 'n) schema" where
  "z_number p v =
     (case v of Some (JNum n) \<Rightarrow> Inr n
      | _ \<Rightarrow> Inl [invalid_type p T_number (getParsedType v)])"

definition z_boolean :: "('n, bool) schema" where
  "z_boolean p v =
     (case v of Some (JBool b) \<Rightarrow> Inr b
      | _ \<Rightarrow> Inl [invalid_type p T_boolean (getParsedType v)])"

text \<open>TypeScript's untagged union \<^verbatim>\<open>string | number | boolean\<close> is the datatype
  \<open>gval\<close>; \<open>z_as\<close> injects the data of an option of the union into it.\<close>

definition z_as :: "('a \<Rightarrow> 'b) \<Rightarrow> ('n, 'a) schema \<Rightarrow> ('n, 'b) schema" where
  "z_as f s p v = (case s p v of Inl is \<Rightarrow> Inl is | Inr a \<Rightarrow> Inr (f a))"

text \<open>\<^verbatim>\<open>z.union\<close>: the first option that accepts the value wins; when none does, one
  \<^verbatim>\<open>invalid_union\<close> issue carries the issues of every option.\<close>

fun unionErrors :: "('n, 'a) schema list \<Rightarrow> path_elem list \<Rightarrow> 'n json option
    \<Rightarrow> ZodIssue list list + 'a" where
  "unionErrors [] p v = Inl []"
| "unionErrors (s # ss) p v =
     (case s p v of
        Inr a \<Rightarrow> Inr a
      | Inl is \<Rightarrow>
          (case unionErrors ss p v of Inr a \<Rightarrow> Inr a | Inl es \<Rightarrow> Inl (is # es)))"

definition z_union :: "('n, 'a) schema list \<Rightarrow> ('n, 'a) schema" where
  "z_union opts p v =
     (case unionErrors opts p v of
        Inr a \<Rightarrow> Inr a
      | Inl es \<Rightarrow> Inl [invalid_union p es])"

text \<open>\<^verbatim>\<open>.optional()\<close> accepts \<^verbatim>\<open>undefined\<close> and otherwise defers to the inner schema; a
  JSON \<^verbatim>\<open>null\<close> is not \<^verbatim>\<open>undefined\<close>.\<close>

definition z_optional :: "('n, 'a) schema \<Rightarrow> ('n, 'a option) schema" where
  "z_optional s p v =
     (case v of
        None \<Rightarrow> Inr None
      | Some x \<Rightarrow> (case s p v of Inl is \<Rightarrow> Inl is | Inr a \<Rightarrow> Inr (Some a)))"

fun mergeResults :: "(ZodIssue list + 'a) list \<Rightarrow> ZodIssue list + 'a list" where
  "mergeResults [] = Inr []"
| "mergeResults (r # rs) =
     (case r of
        Inl is \<Rightarrow> Inl (is @ issues (mergeResults rs))
      | Inr a \<Rightarrow>
          (case mergeResults rs of Inl js \<Rightarrow> Inl js | Inr as \<Rightarrow> Inr (a # as)))"

fun parseItems :: "('n, 'a) schema \<Rightarrow> path_elem list \<Rightarrow> nat \<Rightarrow> 'n json list
    \<Rightarrow> (ZodIssue list + 'a) list" where
  "parseItems s p i [] = []"
| "parseItems s p i (x # xs) = s (p @ [Index i]) (Some x) # parseItems s p (Suc i) xs"

definition z_array :: "('n, 'a) schema \<Rightarrow> ('n, 'a list) schema" where
  "z_array s p v =
     (case v of
        Some (JArr xs) \<Rightarrow> mergeResults (parseItems s p 0 xs)
      | _ \<Rightarrow> Inl [invalid_type p T_array (getParsedType v)])"

text \<open>\<^verbatim>\<open>z.record(valueSchema)\<close>: every property of the object is parsed with the value
  schema, so a value that the schema refuses fails the record under any key. The data is
  the object with the parsed values under the same keys, except that zod, when it builds
  the parsed object, leaves out a property named \<^verbatim>\<open>__proto__\<close>.\<close>

definition z_record :: "('n, 'a) schema \<Rightarrow> ('n, string \<rightharpoonup> 'a) schema" where
  "z_record s p v =
     (case v of
        Some (JObj kvs) \<Rightarrow>
          (case mergeResults (map (\<lambda>(k, x). s (p @ [Key k]) (Some x)) kvs) of
             Inl is \<Rightarrow> Inl is
           | Inr as \<Rightarrow>
               Inr (map_of (filter (\<lambda>(k, a). k \<noteq> ''__proto__'') (zip (map fst kvs) as))))
      | _ \<Rightarrow> Inl [invalid_type p T_object (getParsedType v)])"

text \<open>What \<^verbatim>\<open>.strict()\<close> adds to an object schema: one issue naming the keys of the
  object that its shape does not have, when there are any.\<close>

definition unrecognized :: "string list \<Rightarrow> path_elem list \<Rightarrow> (string \<times> 'n json) list
    \<Rightarrow> ZodIssue list" where
  "unrecognized shapeKeys p kvs =
     (let extraKeys = filter (\<lambda>k. k \<notin> set shapeKeys) (map fst kvs)
      in if extraKeys = [] then [] else [unrecognized_keys p extraKeys])"

text \<open>How an object schema with two shape keys merges what its members returned: the
  data is built when both members parsed and no key is unrecognised; otherwise the object
  fails with the issues of the first member, of the second, and of the strictness check.\<close>

definition mergeObject :: "ZodIssue list + 'a \<Rightarrow> ZodIssue list + 'b \<Rightarrow> ZodIssue list
    \<Rightarrow> ('a \<Rightarrow> 'b \<Rightarrow> 'c) \<Rightarrow> ZodIssue list + 'c" where
  "mergeObject r1 r2 extra build =
     (case (r1, r2, extra) of
        (Inr a, Inr b, []) \<Rightarrow> Inr (build a b)
      | _ \<Rightarrow> Inl (issues r1 @ issues r2 @ extra))"

section \<open>\<^verbatim>\<open>pkgJsonWithNewConfigSchema\<close>\<close>

text \<open>\<^verbatim>\<open>z.object({ id: z.string(), target: z.string() }).strict()\<close>\<close>

definition templateSchema :: "('n, template_pointer) schema" where
  "templateSchema p v =
     (case v of
        Some (JObj kvs) \<Rightarrow>
          mergeObject
            (z_string (p @ [Key ''id'']) (map_of kvs ''id''))
            (z_string (p @ [Key ''target'']) (map_of kvs ''target''))
            (unrecognized [''id'', ''target''] p kvs)
            (\<lambda>i t. \<lparr>id' = i, target = t\<rparr>)
      | _ \<Rightarrow> Inl [invalid_type p T_object (getParsedType v)])"

text \<open>\<^verbatim>\<open>z.union([z.string(), z.number(), z.boolean()])\<close>\<close>

definition globalValueSchema :: "('n, 'n gval) schema" where
  "globalValueSchema = z_union [z_as GStr z_string, z_as GNum z_number, z_as GBool z_boolean]"

record 'n new_data =
  templates :: "template_pointer list option"
  globals :: "'n globals_map option"

text \<open>\<^verbatim>\<open>z.object({ templates: z.array(...).optional(), globals: z.record(...).optional() }).strict()\<close>\<close>

definition newSchema :: "('n, 'n new_data) schema" where
  "newSchema p v =
     (case v of
        Some (JObj kvs) \<Rightarrow>
          mergeObject
            (z_optional (z_array templateSchema) (p @ [Key ''templates''])
               (map_of kvs ''templates''))
            (z_optional (z_record globalValueSchema) (p @ [Key ''globals''])
               (map_of kvs ''globals''))
            (unrecognized [''templates'', ''globals''] p kvs)
            (\<lambda>ts gs. \<lparr>templates = ts, globals = gs\<rparr>)
      | _ \<Rightarrow> Inl [invalid_type p T_object (getParsedType v)])"

record 'n backstage_data =
  new :: "'n new_data option"

text \<open>\<^verbatim>\<open>z.object({ new: (...).optional() })\<close>: not strict, other keys are dropped.\<close>

definition backstageSchema :: "('n, 'n backstage_data) schema" where
  "backstageSchema p v =
     (case v of
        Some (JObj kvs) \<Rightarrow>
          (case z_optional newSchema (p @ [Key ''new'']) (map_of kvs ''new'') of
             Inl is \<Rightarrow> Inl is
           | Inr n \<Rightarrow> Inr \<lparr>new = n\<rparr>)
      | _ \<Rightarrow> Inl [invalid_type p T_object (getParsedType v)])"

record 'n pkg_data =
  backstage :: "'n backstage_data option"

text \<open>\<^verbatim>\<open>z.object({ backstage: (...).optional() })\<close>\<close>

definition pkgJsonWithNewConfigSchema :: "('n, 'n pkg_data) schema" where
  "pkgJsonWithNewConfigSchema p v =
     (case v of
        Some (JObj kvs) \<Rightarrow>
          (case z_optional backstageSchema (p @ [Key ''backstage''])
                  (map_of kvs ''backstage'') of
             Inl is \<Rightarrow> Inl is
           | Inr b \<Rightarrow> Inr \<lparr>backstage = b\<rparr>)
      | _ \<Rightarrow> Inl [invalid_type p T_object (getParsedType v)])"

text \<open>\<^verbatim>\<open>schema.safeParse(data)\<close> starts at the empty path.\<close>

definition safeParse :: "'n json \<Rightarrow> ZodIssue list + 'n pkg_data" where
  "safeParse pkgJson = pkgJsonWithNewConfigSchema [] (Some pkgJson)"

section \<open>\<^verbatim>\<open>loadConfig\<close>\<close>

definition defaultGlobals :: "'n globals_map" where
  "defaultGlobals =
     [''license'' \<mapsto> GStr ''Apache-2.0'',
      ''baseVersion'' \<mapsto> GStr ''0.1.0'',
      ''private'' \<mapsto> GBool True]"

record 'n LoadConfigOptions =
  packagePath :: "string option"
  globalOverrides :: "'n globals_map option"

record 'n NewConfig =
  isUsingDefaultTemplates :: bool
  templatePointers :: "template_pointer list"
  globals :: "'n globals_map"

text \<open>
  What the module imports from the rest of the repository and from the platform, taken as
  parameters: \<^verbatim>\<open>paths.resolveTargetRoot\<close>, the constant \<^verbatim>\<open>defaultTemplates\<close>, and
  \<^verbatim>\<open>fs.readJson\<close>, which returns the parsed file or rejects with an error of the file
  system or of the JSON parser.
\<close>

record ('n, 'e) Env =
  resolveTargetRoot :: "string \<Rightarrow> string"
  readJson :: "string \<Rightarrow> 'e + 'n json"
  defaultTemplates :: "template_pointer list"

text \<open>\<^verbatim>\<open>fromZodError\<close> wraps the issues of the zod error in a \<^verbatim>\<open>ValidationError\<close>, which
  keeps them as its \<^verbatim>\<open>details\<close>.\<close>

datatype ValidationError = ValidationError (details: "ZodIssue list")

definition fromZodError :: "ZodIssue list \<Rightarrow> ValidationError" where
  "fromZodError zodIssues = ValidationError zodIssues"

text \<open>How \<^verbatim>\<open>loadConfig\<close> can reject: with the error of \<^verbatim>\<open>fs.readJson\<close>, unchanged, or
  with \<^verbatim>\<open>new ForwardedError(message, cause)\<close>.\<close>

datatype 'e LoadError =
    ReadError 'e
  | ForwardedError string ValidationError

text \<open>Object spread of a value that may be \<^verbatim>\<open>undefined\<close>: \<^verbatim>\<open>...undefined\<close> adds
  nothing.\<close>

fun spread :: "('k \<rightharpoonup> 'v) option \<Rightarrow> ('k \<rightharpoonup> 'v)" where
  "spread None = Map.empty"
| "spread (Some m) = m"

definition pkgPathOf :: "('n, 'e) Env \<Rightarrow> 'n LoadConfigOptions \<Rightarrow> string" where
  "pkgPathOf env options =
     (case packagePath options of
        Some p \<Rightarrow> p
      | None \<Rightarrow> resolveTargetRoot env ''package.json'')"

definition failureMessage :: "string \<Rightarrow> string" where
  "failureMessage pkgPath =
     ''Failed to load templating configuration from '' @ [CHR 0x27] @ pkgPath @ [CHR 0x27]"

definition loadConfig :: "('n, 'e) Env \<Rightarrow> 'n LoadConfigOptions \<Rightarrow> 'e LoadError + 'n NewConfig" where
  "loadConfig env options =
     (let pkgPath = pkgPathOf env options in
      case readJson env pkgPath of
        Inl e \<Rightarrow> Inl (ReadError e)
      | Inr pkgJson \<Rightarrow>
          (case safeParse pkgJson of
             Inl zodIssues \<Rightarrow>
               Inl (ForwardedError (failureMessage pkgPath) (fromZodError zodIssues))
           | Inr parsed \<Rightarrow>
               (let newConfig = Option.bind (backstage parsed) new in
                Inr \<lparr>isUsingDefaultTemplates = (Option.bind newConfig templates = None),
                     templatePointers =
                       (case Option.bind newConfig templates of
                          Some ts \<Rightarrow> ts
                        | None \<Rightarrow> defaultTemplates env),
                     globals =
                       defaultGlobals
                         ++ spread (Option.bind newConfig new_data.globals)
                         ++ spread (globalOverrides options)\<rparr>)))"

section \<open>Reading the manifest as the claims speak of it\<close>

text \<open>
  The properties below speak of what a manifest declares at \<^verbatim>\<open>backstage.new\<close>. \<open>field\<close>
  reads a property of a raw JSON value the way optional chaining does: it is \<open>None\<close> when
  the value is absent or is not an object, or when the object has no such key.
\<close>

fun field :: "string \<Rightarrow> 'n json option \<Rightarrow> 'n json option" where
  "field k (Some (JObj kvs)) = map_of kvs k"
| "field k v = None"

definition declaredNew :: "'n json \<Rightarrow> 'n json option" where
  "declaredNew pkgJson = field ''new'' (field ''backstage'' (Some pkgJson))"

definition declaredTemplates :: "'n json \<Rightarrow> 'n json option" where
  "declaredTemplates pkgJson = field ''templates'' (declaredNew pkgJson)"

definition declaredGlobals :: "'n json \<Rightarrow> 'n json option" where
  "declaredGlobals pkgJson = field ''globals'' (declaredNew pkgJson)"

fun toGval :: "'n json \<Rightarrow> 'n gval option" where
  "toGval (JStr s) = Some (GStr s)"
| "toGval (JNum n) = Some (GNum n)"
| "toGval (JBool b) = Some (GBool b)"
| "toGval v = None"

text \<open>\<open>entriesOf\<close> reads a declared \<^verbatim>\<open>globals\<close> object as the mapping of all its entries;
  \<open>globalsOf\<close> is that mapping without the key \<^verbatim>\<open>__proto__\<close>.\<close>

fun entriesOf :: "'n json option \<Rightarrow> 'n globals_map" where
  "entriesOf (Some (JObj kvs)) = (\<lambda>k. Option.bind (map_of kvs k) toGval)"
| "entriesOf v = Map.empty"

definition globalsOf :: "'n json option \<Rightarrow> 'n globals_map" where
  "globalsOf v = (\<lambda>k. if k = ''__proto__'' then None else entriesOf v k)"

fun represents :: "'n json \<Rightarrow> template_pointer \<Rightarrow> bool" where
  "represents (JObj kvs) tp \<longleftrightarrow>
     map_of kvs ''id'' = Some (JStr (id' tp)) \<and>
     map_of kvs ''target'' = Some (JStr (target tp)) \<and>
     list_all (\<lambda>k. k \<in> set [''id'', ''target'']) (map fst kvs)"
| "represents v tp \<longleftrightarrow> False"


fun isArray :: "'n json option \<Rightarrow> bool" where
  "isArray (Some (JArr xs)) = True"
| "isArray v = False"


definition newOf :: "'n pkg_data \<Rightarrow> 'n new_data option" where
  "newOf parsed = Option.bind (backstage parsed) new"


section \<open>The schema in the words of the specification\<close>

text \<open>
  The specification describes the manifest schema in words: \<^verbatim>\<open>backstage.new\<close> is optional;
  when present it is an object with no key other than \<^verbatim>\<open>templates\<close> and \<^verbatim>\<open>globals\<close>;
  \<^verbatim>\<open>templates\<close>, when present, is an array of objects that have a string \<^verbatim>\<open>id\<close>, a string
  \<^verbatim>\<open>target\<close> and no other key; \<^verbatim>\<open>globals\<close>, when present, is an object whose values are
  strings, numbers or booleans. \<open>conformsNew\<close> is that description, applied to what
  \<open>declaredNew\<close> reads from the manifest. \<open>conformsManifest\<close> adds what the schema in the
  source asks of the values around the block: the manifest is an object, and
  \<^verbatim>\<open>backstage\<close>, when present, is an object.
\<close>

fun isGlobalValue :: "'n json \<Rightarrow> bool" where
  "isGlobalValue (JStr s) = True"
| "isGlobalValue (JNum n) = True"
| "isGlobalValue (JBool b) = True"
| "isGlobalValue v = False"

fun isString :: "'n json option \<Rightarrow> bool" where
  "isString (Some (JStr s)) = True"
| "isString v = False"

fun isTemplateEntry :: "'n json \<Rightarrow> bool" where
  "isTemplateEntry (JObj kvs) \<longleftrightarrow>
     isString (map_of kvs ''id'') \<and> isString (map_of kvs ''target'') \<and>
     list_all (\<lambda>k. k \<in> set [''id'', ''target'']) (map fst kvs)"
| "isTemplateEntry v \<longleftrightarrow> False"

fun conformsTemplates :: "'n json option \<Rightarrow> bool" where
  "conformsTemplates None = True"
| "conformsTemplates (Some (JArr xs)) = list_all isTemplateEntry xs"
| "conformsTemplates (Some v) = False"

fun conformsGlobals :: "'n json option \<Rightarrow> bool" where
  "conformsGlobals None = True"
| "conformsGlobals (Some (JObj kvs)) = list_all (\<lambda>(k, x). isGlobalValue x) kvs"
| "conformsGlobals (Some v) = False"

fun conformsNew :: "'n json option \<Rightarrow> bool" where
  "conformsNew None = True"
| "conformsNew (Some (JObj kvs)) \<longleftrightarrow>
     list_all (\<lambda>k. k \<in> set [''templates'', ''globals'']) (map fst kvs) \<and>
     conformsTemplates (map_of kvs ''templates'') \<and>
     conformsGlobals (map_of kvs ''globals'')"
| "conformsNew (Some v) = False"

fun isObject :: "'n json option \<Rightarrow> bool" where
  "isObject (Some (JObj kvs)) = True"
| "isObject v = False"

fun objectOrAbsent :: "'n json option \<Rightarrow> bool" where
  "objectOrAbsent None = True"
| "objectOrAbsent v = isObject v"

definition conformsManifest :: "'n json \<Rightarrow> bool" where
  "conformsManifest pkgJson \<longleftrightarrow>
     isObject (Some pkgJson) \<and> objectOrAbsent (field ''backstage'' (Some pkgJson)) \<and>
     conformsNew (declaredNew pkgJson)"


section \<open>The issue creation action\<close>

text \<open>
  The sources hold the test suite of the action \<^verbatim>\<open>gitlab:issues:create\<close>, not the module
  \<^verbatim>\<open>createGitlabIssueAction\<close> that the suite imports. Its handler is therefore modelled from
  the specification (section 4.2), with the shapes of the input, of the options record and
  of the client's response as the tests write them. The mocked client and the clock are
  parameters of the model.
\<close>

text \<open>Modelled from the spec: the enumeration \<^verbatim>\<open>IssueType\<close> of the missing module, with the
  four values the data model lists (default, incident, test_case, task).\<close>

datatype IssueType = DEFAULT | INCIDENT | TEST_CASE | TASK

text \<open>Modelled from the spec: the options record that the handler of the missing module
  passes to the client, with the fields the tests expect in the call.\<close>

record IssueOptions =
  issueType :: "string option"
  description :: string
  assigneeIds :: "int list"
  confidential :: bool
  epicId :: "int option"
  labels :: string
  createdAt :: string
  dueDate :: "string option"
  discussionToResolve :: string
  mergeRequestToResolveDiscussionsOf :: "int option"
  milestoneId :: "int option"
  weight :: "int option"

text \<open>Modelled from the spec: what the client's \<^verbatim>\<open>create\<close> resolves to, as far as the
  handler of the missing module reads it (\<^verbatim>\<open>id\<close>, written \<open>id'\<close>, and \<^verbatim>\<open>web_url\<close>).\<close>

record IssueResponse =
  id' :: int
  web_url :: string

text \<open>Modelled from the spec: the input of the handler of the missing module
  (\<^verbatim>\<open>IssueCreateRequest\<close> in the data model); \<open>None\<close> is an absent optional field.\<close>

record IssueInput =
  repoUrl :: string
  projectId :: int
  title :: string
  issueType :: "IssueType option"
  description :: "string option"
  dueDate :: "string option"
  token :: "string option"
  assignees :: "int list option"
  labels :: "string option"
  confidential :: "bool option"
  epicId :: "int option"
  milestoneId :: "int option"
  weight :: "int option"
  discussionToResolve :: "string option"
  mergeRequestToResolveDiscussionsOf :: "int option"

text \<open>Modelled from the spec: the values that the handler of the missing module hands to
  the \<^verbatim>\<open>output\<close> callback, a number (\<^verbatim>\<open>issueId\<close>) or a string (\<^verbatim>\<open>issueUrl\<close>).\<close>

datatype OutputValue = OutNumber int | OutString string

subsection \<open>Date parsing\<close>

text \<open>
  The specification says that the handler normalizes \<^verbatim>\<open>dueDate\<close> "to full ISO-8601 via date
  parsing (accepts a bare date or date-time string; throws/fails if unparsable)". The
  model reads the two forms the sentence names, in UTC: the bare date \<^verbatim>\<open>YYYY-MM-DD\<close> and
  the date-time \<^verbatim>\<open>YYYY-MM-DDTHH:mm:ssZ\<close>, with or without milliseconds
  (\<^verbatim>\<open>YYYY-MM-DDTHH:mm:ss.sssZ\<close>). The fields must be digits and name a day of the calendar
  and a time of day; every other string is unparsable. The full form is
  \<^verbatim>\<open>YYYY-MM-DDTHH:mm:ss.sssZ\<close>.
\<close>

text \<open>Modelled from the spec: the point in time that the date parsing of the missing
  handler reads from a string: a calendar date and a time of day in UTC, to the
  millisecond.\<close>

record DateTime =
  year :: nat
  month :: nat
  day :: nat
  hours :: nat
  minutes :: nat
  seconds :: nat
  milliseconds :: nat

text \<open>Modelled from the spec: the value of a decimal digit, for the date parsing of the
  missing handler; \<open>None\<close> for any other character.\<close>

definition digitOf :: "char \<Rightarrow> nat option" where
  "digitOf c = (if c \<in> set ''0123456789'' then Some (of_char c - of_char CHR ''0'') else None)"

text \<open>Modelled from the spec: the last decimal digit of a number as a character, for the
  ISO-8601 rendering of the missing handler.\<close>

definition digitChar :: "nat \<Rightarrow> char" where
  "digitChar n = ''0123456789'' ! (n mod 10)"

text \<open>Modelled from the spec: a string of digits read as a decimal number, for the date
  parsing of the missing handler; \<open>None\<close> when the string is empty or has another
  character.\<close>

fun decimalFrom :: "nat \<Rightarrow> string \<Rightarrow> nat option" where
  "decimalFrom acc [] = Some acc"
| "decimalFrom acc (c # cs) =
     (case digitOf c of None \<Rightarrow> None | Some d \<Rightarrow> decimalFrom (10 * acc + d) cs)"

definition decimal :: "string \<Rightarrow> nat option" where
  "decimal s = (if s = [] then None else decimalFrom 0 s)"

text \<open>Modelled from the spec: a number written with two, three and four digits, zero
  padded, for the ISO-8601 rendering of the missing handler.\<close>

definition pad2 :: "nat \<Rightarrow> string" where
  "pad2 n = [digitChar (n div 10), digitChar n]"

definition pad3 :: "nat \<Rightarrow> string" where
  "pad3 n = [digitChar (n div 100), digitChar (n div 10), digitChar n]"

definition pad4 :: "nat \<Rightarrow> string" where
  "pad4 n = [digitChar (n div 1000), digitChar (n div 100), digitChar (n div 10), digitChar n]"

text \<open>Modelled from the spec: the calendar that decides whether a string names a date, for
  the date parsing of the missing handler.\<close>

definition leapYear :: "nat \<Rightarrow> bool" where
  "leapYear y \<longleftrightarrow> y mod 4 = 0 \<and> (y mod 100 \<noteq> 0 \<or> y mod 400 = 0)"

definition daysInMonth :: "nat \<Rightarrow> nat \<Rightarrow> nat" where
  "daysInMonth y m =
     (if m = 2 then (if leapYear y then 29 else 28)
      else if m = 4 \<or> m = 6 \<or> m = 9 \<or> m = 11 then 30
      else 31)"

definition validDateTime :: "DateTime \<Rightarrow> bool" where
  "validDateTime t \<longleftrightarrow>
     year t \<le> 9999 \<and> 1 \<le> month t \<and> month t \<le> 12 \<and>
     1 \<le> day t \<and> day t \<le> daysInMonth (year t) (month t) \<and>
     hours t \<le> 23 \<and> minutes t \<le> 59 \<and> seconds t \<le> 59 \<and> milliseconds t \<le> 999"

text \<open>Modelled from the spec: the date parsing of the missing handler. \<open>readDate\<close> reads
  \<^verbatim>\<open>YYYY-MM-DD\<close>, \<open>readTime\<close> reads \<^verbatim>\<open>HH:mm:ss\<close>, \<open>makeDateTime\<close> keeps the fields when they
  name a point in time, and \<open>parseDate\<close> tells the three accepted forms apart by their
  length and separators.\<close>

definition readDate :: "string \<Rightarrow> (nat \<times> nat \<times> nat) option" where
  "readDate s =
     (if length s = 10 \<and> s ! 4 = CHR ''-'' \<and> s ! 7 = CHR ''-'' then
        (case (decimal (take 4 s), decimal (take 2 (drop 5 s)), decimal (drop 8 s)) of
           (Some y, Some m, Some d) \<Rightarrow> Some (y, m, d)
         | _ \<Rightarrow> None)
      else None)"

definition readTime :: "string \<Rightarrow> (nat \<times> nat \<times> nat) option" where
  "readTime s =
     (if length s = 8 \<and> s ! 2 = CHR '':'' \<and> s ! 5 = CHR '':'' then
        (case (decimal (take 2 s), decimal (take 2 (drop 3 s)), decimal (drop 6 s)) of
           (Some h, Some m, Some sec) \<Rightarrow> Some (h, m, sec)
         | _ \<Rightarrow> None)
      else None)"

definition makeDateTime :: "(nat \<times> nat \<times> nat) option \<Rightarrow> (nat \<times> nat \<times> nat) option
    \<Rightarrow> nat option \<Rightarrow> DateTime option" where
  "makeDateTime date time ms =
     (case (date, time, ms) of
        (Some (y, mo, d), Some (h, mi, sec), Some msec) \<Rightarrow>
          (let t = \<lparr>year = y, month = mo, day = d, hours = h, minutes = mi, seconds = sec,
                    milliseconds = msec\<rparr>
           in if validDateTime t then Some t else None)
      | _ \<Rightarrow> None)"

definition parseDate :: "string \<Rightarrow> DateTime option" where
  "parseDate s =
     (if length s = 10 then makeDateTime (readDate s) (Some (0, 0, 0)) (Some 0)
      else if length s = 20 \<and> s ! 10 = CHR ''T'' \<and> s ! 19 = CHR ''Z'' then
        makeDateTime (readDate (take 10 s)) (readTime (take 8 (drop 11 s))) (Some 0)
      else if length s = 24 \<and> s ! 10 = CHR ''T'' \<and> s ! 19 = CHR ''.'' \<and> s ! 23 = CHR ''Z'' then
        makeDateTime (readDate (take 10 s)) (readTime (take 8 (drop 11 s)))
          (decimal (take 3 (drop 20 s)))
      else None)"

text \<open>Modelled from the spec: the rendering in full ISO-8601 that the missing handler
  sends to the client, \<^verbatim>\<open>YYYY-MM-DDTHH:mm:ss.sssZ\<close>.\<close>

definition toISOString :: "DateTime \<Rightarrow> string" where
  "toISOString t =
     pad4 (year t) @ ''-'' @ pad2 (month t) @ ''-'' @ pad2 (day t) @ ''T'' @
     pad2 (hours t) @ '':'' @ pad2 (minutes t) @ '':'' @ pad2 (seconds t) @ ''.'' @
     pad3 (milliseconds t) @ ''Z''"



subsection \<open>The handler\<close>

text \<open>Modelled from the spec: how the handler of the missing module fails, after the
  error taxonomy: an unparsable \<^verbatim>\<open>dueDate\<close>, or the error the client rejected with.\<close>

datatype 'e ActionError = DateParseError string | TrackerClientError 'e

text \<open>Modelled from the spec: what the handler of the missing module takes from its
  surroundings. \<open>now\<close> is the current timestamp in ISO-8601 form at call time;
  \<open>integrationToken\<close> is the ambient token that the integrations resolve for the host of a
  \<^verbatim>\<open>repoUrl\<close>; \<open>create\<close> is the issue creation of the client built for a token, which
  resolves to a response or rejects.\<close>

record 'e ActionEnv =
  now :: string
  integrationToken :: "string \<Rightarrow> string option"
  create :: "string option \<Rightarrow> int \<Rightarrow> string \<Rightarrow> IssueOptions \<Rightarrow> 'e + IssueResponse"

text \<open>Modelled from the spec: what a run of the handler of the missing module leaves
  behind: how it ended, the calls it made to the client's \<^verbatim>\<open>create\<close>, and the calls it made
  to \<^verbatim>\<open>output\<close>, both in order.\<close>

record 'e Outcome =
  result :: "'e ActionError + unit"
  clientCalls :: "(int \<times> string \<times> IssueOptions) list"
  outputs :: "(string \<times> OutputValue) list"

text \<open>Modelled from the spec: the missing handler maps the \<^verbatim>\<open>issueType\<close> enumerated value
  to the lowercase string form expected downstream.\<close>

fun issueTypeString :: "IssueType \<Rightarrow> string" where
  "issueTypeString DEFAULT = ''default''"
| "issueTypeString INCIDENT = ''incident''"
| "issueTypeString TEST_CASE = ''test_case''"
| "issueTypeString TASK = ''task''"

text \<open>Modelled from the spec: the missing handler resolves the effective token; the
  explicit per-call \<^verbatim>\<open>token\<close> takes precedence over the ambient token of the integration.\<close>

definition effectiveToken :: "'e ActionEnv \<Rightarrow> IssueInput \<Rightarrow> string option" where
  "effectiveToken env input =
     (case token input of
        Some t \<Rightarrow> Some t
      | None \<Rightarrow> integrationToken env (repoUrl input))"

text \<open>Modelled from the spec: the missing handler normalizes \<^verbatim>\<open>dueDate\<close>, if present, to
  full ISO-8601 via date parsing; \<open>Inl d\<close> says that the supplied string \<open>d\<close> is unparsable.
  An absent \<^verbatim>\<open>dueDate\<close> stays \<^verbatim>\<open>undefined\<close>.\<close>

definition mappedDueDate :: "IssueInput \<Rightarrow> string + string option" where
  "mappedDueDate input =
     (case IssueInput.dueDate input of
        None \<Rightarrow> Inr None
      | Some d \<Rightarrow>
          (case parseDate d of
             None \<Rightarrow> Inl d
           | Some t \<Rightarrow> Inr (Some (toISOString t))))"

text \<open>Modelled from the spec: the default that the missing handler puts in the place of an
  absent optional field.\<close>

definition orElse :: "'a option \<Rightarrow> 'a \<Rightarrow> 'a" where
  "orElse v d = (case v of Some x \<Rightarrow> x | None \<Rightarrow> d)"

text \<open>Modelled from the spec: the options record of the missing handler. \<^verbatim>\<open>description\<close>,
  \<^verbatim>\<open>labels\<close> and \<^verbatim>\<open>discussionToResolve\<close> default to the empty string, \<^verbatim>\<open>assignees\<close> to the
  empty sequence (as \<^verbatim>\<open>assigneeIds\<close>), \<^verbatim>\<open>confidential\<close> to false; \<^verbatim>\<open>createdAt\<close> is the current
  timestamp; every other optional field passes through.\<close>

definition issueOptions :: "'e ActionEnv \<Rightarrow> IssueInput \<Rightarrow> string option \<Rightarrow> IssueOptions" where
  "issueOptions env input due =
     \<lparr>IssueOptions.issueType = map_option issueTypeString (IssueInput.issueType input),
      IssueOptions.description = orElse (IssueInput.description input) '''',
      assigneeIds = orElse (assignees input) [],
      IssueOptions.confidential = orElse (IssueInput.confidential input) False,
      IssueOptions.epicId = IssueInput.epicId input,
      IssueOptions.labels = orElse (IssueInput.labels input) '''',
      createdAt = now env,
      IssueOptions.dueDate = due,
      IssueOptions.discussionToResolve = orElse (IssueInput.discussionToResolve input) '''',
      IssueOptions.mergeRequestToResolveDiscussionsOf =
        IssueInput.mergeRequestToResolveDiscussionsOf input,
      IssueOptions.milestoneId = IssueInput.milestoneId input,
      IssueOptions.weight = IssueInput.weight input\<rparr>"

text \<open>Modelled from the spec: the handler of the missing module. A \<^verbatim>\<open>dueDate\<close> that does not
  parse fails before the outbound call. Otherwise the handler invokes the client's
  \<^verbatim>\<open>create\<close> once with \<^verbatim>\<open>(projectId, title, options)\<close>; when the call resolves it emits
  \<^verbatim>\<open>issueId\<close> and \<^verbatim>\<open>issueUrl\<close>, and when the call rejects the error propagates, with no retry
  and no output.\<close>

definition handler :: "'e ActionEnv \<Rightarrow> IssueInput \<Rightarrow> 'e Outcome" where
  "handler env input =
     (case mappedDueDate input of
        Inl d \<Rightarrow> \<lparr>result = Inl (DateParseError d), clientCalls = [], outputs = []\<rparr>
      | Inr due \<Rightarrow>
          (let options = issueOptions env input due;
               call = (projectId input, title input, options)
           in case create env (effectiveToken env input) (projectId input) (title input) options of
                Inl e \<Rightarrow>
                  \<lparr>result = Inl (TrackerClientError e), clientCalls = [call], outputs = []\<rparr>
              | Inr response \<Rightarrow>
                  \<lparr>result = Inr (),
                   clientCalls = [call],
                   outputs = [(''issueId'', OutNumber (IssueResponse.id' response)),
                              (''issueUrl'', OutString (web_url response))]\<rparr>))"

text \<open>An input that has only \<^verbatim>\<open>repoUrl\<close>, \<^verbatim>\<open>projectId\<close> and \<^verbatim>\<open>title\<close>.\<close>

definition minimalInput :: "string \<Rightarrow> int \<Rightarrow> string \<Rightarrow> IssueInput" where
  "minimalInput r p t =
     \<lparr>repoUrl = r, projectId = p, title = t, issueType = None, description = None,
      dueDate = None, token = None, assignees = None, labels = None, confidential = None,
      epicId = None, milestoneId = None, weight = None, discussionToResolve = None,
      mergeRequestToResolveDiscussionsOf = None\<rparr>"

section \<open>Sample inputs\<close>

text \<open>A file system that holds one manifest, at \<^verbatim>\<open>/repo/package.json\<close>, the path that the
  target root resolves to.\<close>

definition sampleTemplates :: "template_pointer list" where
  "sampleTemplates = [\<lparr>template_pointer.id' = ''frontend-plugin'', target = ''plugins/a''\<rparr>]"

definition manifestEnv :: "'n json \<Rightarrow> ('n, string) Env" where
  "manifestEnv pkgJson =
     \<lparr>resolveTargetRoot = (\<lambda>f. ''/repo/'' @ f),
      readJson = (\<lambda>p. if p = ''/repo/package.json'' then Inr pkgJson else Inl ''ENOENT''),
      defaultTemplates = sampleTemplates\<rparr>"

definition noOptions :: "'n LoadConfigOptions" where
  "noOptions = \<lparr>packagePath = None, globalOverrides = None\<rparr>"

definition globalsManifest :: "int json" where
  "globalsManifest =
     JObj [(''name'', JStr ''root''),
           (''backstage'', JObj [(''new'', JObj [(''globals'',
              JObj [(''baseVersion'', JStr ''0.2.0'')])])])]"

definition protoManifest :: "int json" where
  "protoManifest =
     JObj [(''backstage'', JObj [(''new'', JObj [(''globals'',
        JObj [(''__proto__'', JStr ''x'')])])])]"

definition privateOverride :: "int LoadConfigOptions" where
  "privateOverride =
     \<lparr>packagePath = None, globalOverrides = Some [''private'' \<mapsto> GBool False]\<rparr>"


definition bareManifest :: "int json" where
  "bareManifest = JObj [(''name'', JStr ''root''), (''version'', JStr ''1.0.0'')]"

definition templatesManifest :: "int json" where
  "templatesManifest =
     JObj [(''backstage'', JObj [(''role'', JStr ''cli''), (''new'', JObj [(''templates'',
        JArr [JObj [(''id'', JStr ''plugin''), (''target'', JStr ''plugins/x'')],
              JObj [(''target'', JStr ''packages/y''), (''id'', JStr ''library'')]])])])]"

definition emptyTemplatesManifest :: "int json" where
  "emptyTemplatesManifest =
     JObj [(''backstage'', JObj [(''new'', JObj [(''templates'', JArr [])])])]"

definition licenseOverride :: "int LoadConfigOptions" where
  "licenseOverride =
     \<lparr>packagePath = Some ''/repo/package.json'',
      globalOverrides = Some [''license'' \<mapsto> GStr ''MIT'']\<rparr>"


definition nullBackstageManifest :: "int json" where
  "nullBackstageManifest = JObj [(''name'', JStr ''root''), (''backstage'', JNull)]"


definition extraKeyManifest :: "int json" where
  "extraKeyManifest =
     JObj [(''backstage'', JObj [(''new'', JObj [(''templates'',
        JArr [JObj [(''id'', JStr ''plugin''), (''target'', JStr ''plugins/x'')],
              JObj [(''id'', JStr ''library''), (''target'', JStr ''packages/y''),
                    (''description'', JStr ''a library'')]])])])]"

definition unknownNewKeyManifest :: "int json" where
  "unknownNewKeyManifest =
     JObj [(''backstage'', JObj [(''new'', JObj [(''globals'', JObj [(''license'', JStr ''MIT'')]),
        (''plugins'', JArr [])])])]"

definition nestedGlobalManifest :: "int json" where
  "nestedGlobalManifest =
     JObj [(''backstage'', JObj [(''new'', JObj [(''globals'',
        JObj [(''license'', JStr ''MIT''), (''owners'', JArr [JStr ''me''])])])])]"


text \<open>
  The fixtures of the test suite: the mocked client resolves to issue 42, the integration
  for \<^verbatim>\<open>gitlab.com\<close> holds \<^verbatim>\<open>myIntegrationsToken\<close>, and the inputs are those of the tests
  "minimal input params" and "several input params". \<open>rejectingEnv\<close> is a client whose
  \<^verbatim>\<open>create\<close> rejects.
\<close>

definition mockResponse :: IssueResponse where
  "mockResponse = \<lparr>IssueResponse.id' = 42, web_url = ''https://gitlab.com/hangar18-/issues/42''\<rparr>"

definition mockEnv :: "string ActionEnv" where
  "mockEnv =
     \<lparr>now = ''1988-06-03T12:00:00.000Z'',
      integrationToken =
        (\<lambda>r. if r = ''gitlab.com?repo=repo&owner=owner'' then Some ''myIntegrationsToken''
             else None),
      create = (\<lambda>tok p t options. Inr mockResponse)\<rparr>"


definition minimalTestInput :: IssueInput where
  "minimalTestInput =
     minimalInput ''gitlab.com?repo=repo&owner=owner'' 123 ''Computer banks to rule the world''"





section \<open>Properties of the schema combinators\<close>

lemma mergeResults_map_Inr: "mergeResults (map Inr as) = Inr as"
  by (induction as) auto

lemma mergeResults_InrD: "mergeResults rs = Inr as \<Longrightarrow> rs = map Inr as"
  by (induction rs arbitrary: as) (auto split: sum.splits)

lemma mergeResults_Inr_iff: "mergeResults rs = Inr as \<longleftrightarrow> rs = map Inr as"
  using mergeResults_InrD mergeResults_map_Inr by blast

lemma issues_mergeResults: "issues (mergeResults rs) = concat (map issues rs)"
  by (induction rs) (auto split: sum.splits)

lemma success_mergeResults: "success (mergeResults rs) \<longleftrightarrow> list_all success rs"
  by (induction rs) (auto split: sum.splits)

lemma z_string_Inr: "z_string p v = Inr s \<longleftrightarrow> v = Some (JStr s)"
  by (auto simp: z_string_def split: option.splits json.splits)

lemma z_optional_Inr:
  "z_optional s p v = Inr r \<longleftrightarrow>
     (v = None \<and> r = None) \<or> (\<exists>a. v \<noteq> None \<and> s p v = Inr a \<and> r = Some a)"
  by (auto simp: z_optional_def split: option.splits sum.splits)

lemma unrecognized_Nil:
  "unrecognized shapeKeys p kvs = [] \<longleftrightarrow> list_all (\<lambda>k. k \<in> set shapeKeys) (map fst kvs)"
  by (auto simp: unrecognized_def Let_def filter_empty_conv list_all_iff)

lemma globalValueSchema_Inr:
  "globalValueSchema p v = Inr g \<longleftrightarrow> (\<exists>x. v = Some x \<and> toGval x = Some g)"
proof (cases v)
  case None
  then show ?thesis
    by (simp add: globalValueSchema_def z_union_def z_as_def z_string_def z_number_def
        z_boolean_def)
next
  case (Some x)
  then show ?thesis
    by (cases x)
      (auto simp: globalValueSchema_def z_union_def z_as_def z_string_def z_number_def
        z_boolean_def)
qed

lemma globalsOf_None: "globalsOf None = Map.empty"
  by (simp add: globalsOf_def fun_eq_iff)

lemma map_of_filter_key:
  "map_of (filter (\<lambda>(k, a). P k) xs) k = (if P k then map_of xs k else None)"
  by (induction xs) auto

lemma record_lookup:
  "map (\<lambda>(k, x). globalValueSchema (p @ [Key k]) (Some x)) kvs = map Inr as \<Longrightarrow>
   map_of (zip (map fst kvs) as) k = Option.bind (map_of kvs k) toGval"
proof (induction kvs arbitrary: as)
  case Nil
  then show ?case by simp
next
  case (Cons kv kvs)
  then obtain a as' where as: "as = a # as'" by (cases as) auto
  obtain k' x where kv: "kv = (k', x)" by (cases kv)
  from Cons.prems as kv have "toGval x = Some a"
    by (simp add: globalValueSchema_Inr)
  moreover from Cons.prems as
  have "map (\<lambda>(k, x). globalValueSchema (p @ [Key k]) (Some x)) kvs = map Inr as'"
    by simp
  ultimately show ?case using Cons.IH [of as'] as kv by simp
qed

lemma z_record_Inr:
  assumes "z_record globalValueSchema p v = Inr m"
  shows "m = globalsOf v \<and> (\<exists>kvs. v = Some (JObj kvs))"
proof -
  from assms obtain kvs where v: "v = Some (JObj kvs)"
    by (auto simp: z_record_def split: option.splits json.splits)
  with assms obtain as
    where as: "map (\<lambda>(k, x). globalValueSchema (p @ [Key k]) (Some x)) kvs = map Inr as"
      and m: "m = map_of (filter (\<lambda>(k, a). k \<noteq> ''__proto__'') (zip (map fst kvs) as))"
    by (auto simp: z_record_def dest!: mergeResults_InrD split: sum.splits)
  have "m k = globalsOf v k" for k
    unfolding m v globalsOf_def
    by (simp add: map_of_filter_key record_lookup [OF as])
  with v show ?thesis by auto
qed

lemma mergeObject_Inr:
  "mergeObject r1 r2 extra build = Inr c \<longleftrightarrow>
     (\<exists>a b. r1 = Inr a \<and> r2 = Inr b \<and> extra = [] \<and> c = build a b)"
  by (cases r1; cases r2; cases extra) (auto simp: mergeObject_def)

lemma success_mergeObject:
  "success (mergeObject r1 r2 extra build) \<longleftrightarrow> success r1 \<and> success r2 \<and> extra = []"
  by (cases r1; cases r2; cases extra) (simp_all add: mergeObject_def)

lemma issues_mergeObject:
  "issues (mergeObject r1 r2 extra build) = issues r1 @ issues r2 @ extra"
  by (cases r1; cases r2; cases extra) (simp_all add: mergeObject_def)

lemma templateSchema_obj:
  "templateSchema p (Some (JObj kvs)) = Inr tp \<longleftrightarrow>
     z_string (p @ [Key ''id'']) (map_of kvs ''id'') = Inr (template_pointer.id' tp) \<and>
     z_string (p @ [Key ''target'']) (map_of kvs ''target'') = Inr (target tp) \<and>
     unrecognized [''id'', ''target''] p kvs = []"
  by (cases tp) (auto simp: templateSchema_def mergeObject_Inr)

lemma templateSchema_Inr:
  "templateSchema p v = Inr tp \<longleftrightarrow> (\<exists>x. v = Some x \<and> represents x tp)"
proof (cases v)
  case None
  then show ?thesis by (simp add: templateSchema_def)
next
  case (Some x)
  show ?thesis
  proof (cases x)
    case (JObj kvs)
    with Some show ?thesis
      by (auto simp: templateSchema_obj z_string_Inr unrecognized_Nil)
  qed (use Some in \<open>simp_all add: templateSchema_def\<close>)
qed

lemma parseItems_Inr:
  "parseItems templateSchema p i xs = map Inr tps \<longleftrightarrow> list_all2 represents xs tps"
proof (induction xs arbitrary: i tps)
  case Nil
  then show ?case by auto
next
  case (Cons x xs)
  then show ?case by (cases tps) (auto simp: templateSchema_Inr)
qed

lemma z_array_Inr:
  "z_array templateSchema p v = Inr tps \<longleftrightarrow>
     (\<exists>xs. v = Some (JArr xs) \<and> list_all2 represents xs tps)"
proof (cases v)
  case None
  then show ?thesis by (simp add: z_array_def)
next
  case (Some x)
  then show ?thesis
    by (cases x)
      (simp_all add: z_array_def parseItems_Inr mergeResults_Inr_iff)
qed

lemma newSchema_obj:
  "newSchema p (Some (JObj kvs)) = Inr d \<longleftrightarrow>
     z_optional (z_array templateSchema) (p @ [Key ''templates'']) (map_of kvs ''templates'')
       = Inr (templates d) \<and>
     z_optional (z_record globalValueSchema) (p @ [Key ''globals'']) (map_of kvs ''globals'')
       = Inr (new_data.globals d) \<and>
     unrecognized [''templates'', ''globals''] p kvs = []"
  by (cases d) (auto simp: newSchema_def mergeObject_Inr)

lemma newSchema_InrD:
  assumes "newSchema p v = Inr d"
  shows "\<exists>kvs. v = Some (JObj kvs) \<and> newSchema p (Some (JObj kvs)) = Inr d"
proof (cases v)
  case None
  with assms show ?thesis by (simp add: newSchema_def)
next
  case (Some x)
  with assms show ?thesis by (cases x) (simp_all add: newSchema_def)
qed

lemma newSchema_templates:
  assumes "newSchema p v = Inr d"
  shows "(field ''templates'' v = None \<and> templates d = None) \<or>
         (\<exists>xs tps. field ''templates'' v = Some (JArr xs) \<and> templates d = Some tps \<and>
            list_all2 represents xs tps)"
proof -
  from newSchema_InrD [OF assms] obtain kvs where v: "v = Some (JObj kvs)"
    and "newSchema p (Some (JObj kvs)) = Inr d" by blast
  then have "z_optional (z_array templateSchema) (p @ [Key ''templates''])
      (map_of kvs ''templates'') = Inr (templates d)"
    by (simp add: newSchema_obj)
  then show ?thesis
    unfolding z_optional_Inr z_array_Inr using v by auto
qed

lemma newSchema_globals:
  assumes "newSchema p v = Inr d"
  shows "spread (new_data.globals d) = globalsOf (field ''globals'' v)"
proof -
  from newSchema_InrD [OF assms] obtain kvs where v: "v = Some (JObj kvs)"
    and "newSchema p (Some (JObj kvs)) = Inr d" by blast
  then have "z_optional (z_record globalValueSchema) (p @ [Key ''globals''])
      (map_of kvs ''globals'') = Inr (new_data.globals d)"
    by (simp add: newSchema_obj)
  then show ?thesis
    unfolding z_optional_Inr using v by (auto simp: globalsOf_None dest: z_record_Inr)
qed

lemma backstageSchema_InrD:
  assumes "backstageSchema p v = Inr b"
  shows "\<exists>kvs. v = Some (JObj kvs) \<and>
           z_optional newSchema (p @ [Key ''new'']) (map_of kvs ''new'') = Inr (new b)"
proof (cases v)
  case None
  with assms show ?thesis by (simp add: backstageSchema_def)
next
  case (Some x)
  with assms show ?thesis
    by (cases x) (auto simp: backstageSchema_def split: sum.splits)
qed

lemma pkgSchema_InrD:
  assumes "pkgJsonWithNewConfigSchema p v = Inr d"
  shows "\<exists>kvs. v = Some (JObj kvs) \<and>
           z_optional backstageSchema (p @ [Key ''backstage'']) (map_of kvs ''backstage'')
             = Inr (backstage d)"
proof (cases v)
  case None
  with assms show ?thesis by (simp add: pkgJsonWithNewConfigSchema_def)
next
  case (Some x)
  with assms show ?thesis
    by (cases x) (auto simp: pkgJsonWithNewConfigSchema_def split: sum.splits)
qed

lemma safeParse_new:
  assumes "safeParse pkgJson = Inr parsed"
  shows "(declaredNew pkgJson = None \<and> newOf parsed = None) \<or>
         (\<exists>n. newSchema [Key ''backstage'', Key ''new''] (declaredNew pkgJson) = Inr n \<and>
            newOf parsed = Some n)"
proof -
  from assms obtain kvs where top: "pkgJson = JObj kvs"
    and b: "z_optional backstageSchema [Key ''backstage''] (map_of kvs ''backstage'')
              = Inr (backstage parsed)"
    using pkgSchema_InrD [of "[]" "Some pkgJson" parsed] by (auto simp: safeParse_def)
  show ?thesis
  proof (cases "backstage parsed")
    case None
    with b have "map_of kvs ''backstage'' = None" by (simp add: z_optional_Inr)
    with None top show ?thesis by (simp add: declaredNew_def newOf_def)
  next
    case (Some bd)
    with b have b': "backstageSchema [Key ''backstage''] (map_of kvs ''backstage'') = Inr bd"
      by (simp add: z_optional_Inr)
    from backstageSchema_InrD [OF this] obtain kvs' where
      bk: "map_of kvs ''backstage'' = Some (JObj kvs')" and
      n: "z_optional newSchema [Key ''backstage'', Key ''new''] (map_of kvs' ''new'') = Inr (new bd)"
      by auto
    from top bk have dn: "declaredNew pkgJson = map_of kvs' ''new''"
      by (simp add: declaredNew_def)
    from n show ?thesis
      unfolding z_optional_Inr dn by (auto simp: newOf_def Some)
  qed
qed

lemma safeParse_templates:
  assumes "safeParse pkgJson = Inr parsed"
  shows "(declaredTemplates pkgJson = None \<and> Option.bind (newOf parsed) templates = None) \<or>
         (\<exists>xs tps. declaredTemplates pkgJson = Some (JArr xs) \<and>
            Option.bind (newOf parsed) templates = Some tps \<and> list_all2 represents xs tps)"
  using safeParse_new [OF assms]
proof (elim disjE conjE exE)
  assume "declaredNew pkgJson = None" "newOf parsed = None"
  then show ?thesis by (simp add: declaredTemplates_def)
next
  fix n
  assume "newSchema [Key ''backstage'', Key ''new''] (declaredNew pkgJson) = Inr n"
    and "newOf parsed = Some n"
  then show ?thesis
    using newSchema_templates [of "[Key ''backstage'', Key ''new'']" "declaredNew pkgJson" n]
    by (simp add: declaredTemplates_def)
qed

lemma safeParse_globals:
  assumes "safeParse pkgJson = Inr parsed"
  shows "spread (Option.bind (newOf parsed) new_data.globals) = globalsOf (declaredGlobals pkgJson)"
  using safeParse_new [OF assms]
proof (elim disjE conjE exE)
  assume "declaredNew pkgJson = None" "newOf parsed = None"
  then show ?thesis by (simp add: declaredGlobals_def globalsOf_None)
next
  fix n
  assume "newSchema [Key ''backstage'', Key ''new''] (declaredNew pkgJson) = Inr n"
    and "newOf parsed = Some n"
  then show ?thesis
    using newSchema_globals [of "[Key ''backstage'', Key ''new'']" "declaredNew pkgJson" n]
    by (simp add: declaredGlobals_def)
qed

subsection \<open>What \<^verbatim>\<open>loadConfig\<close> returns\<close>

lemma loadConfig_Inr:
  assumes "readJson env (pkgPathOf env options) = Inr pkgJson"
    and "loadConfig env options = Inr config"
  shows "\<exists>parsed. safeParse pkgJson = Inr parsed \<and>
     isUsingDefaultTemplates config = (Option.bind (newOf parsed) templates = None) \<and>
     templatePointers config =
       (case Option.bind (newOf parsed) templates of Some ts \<Rightarrow> ts
        | None \<Rightarrow> defaultTemplates env) \<and>
     NewConfig.globals config =
       defaultGlobals ++ spread (Option.bind (newOf parsed) new_data.globals)
         ++ spread (globalOverrides options)"
  using assms
  by (auto simp: loadConfig_def Let_def newOf_def split: sum.splits)

lemma loadConfig_success:
  assumes "readJson env (pkgPathOf env options) = Inr pkgJson"
    and "success (safeParse pkgJson)"
  shows "\<exists>config. loadConfig env options = Inr config"
  using assms by (cases "safeParse pkgJson") (auto simp: loadConfig_def Let_def)

lemma loadConfig_InrE:
  assumes "readJson env (pkgPathOf env options) = Inr pkgJson"
    and "loadConfig env options = Inr config"
  obtains parsed where "safeParse pkgJson = Inr parsed"
    and "isUsingDefaultTemplates config = (Option.bind (newOf parsed) templates = None)"
    and "templatePointers config =
       (case Option.bind (newOf parsed) templates of Some ts \<Rightarrow> ts
        | None \<Rightarrow> defaultTemplates env)"
    and "NewConfig.globals config =
       defaultGlobals ++ spread (Option.bind (newOf parsed) new_data.globals)
         ++ spread (globalOverrides options)"
  using loadConfig_Inr [OF assms] by (elim exE conjE)

lemma isArray_iff: "isArray v \<longleftrightarrow> (\<exists>xs. v = Some (JArr xs))"
  by (cases v rule: isArray.cases) auto


subsection \<open>Which manifests the schema accepts\<close>

lemma success_z_optional: "success (z_optional s p v) \<longleftrightarrow> v = None \<or> success (s p v)"
  by (auto simp: z_optional_def split: option.splits sum.splits)

lemma success_z_string: "success (z_string p v) \<longleftrightarrow> isString v"
  by (cases v rule: isString.cases) (simp_all add: z_string_def)

lemma success_globalValueSchema:
  "success (globalValueSchema p (Some x)) \<longleftrightarrow> isGlobalValue x"
  by (cases x)
    (simp_all add: globalValueSchema_def z_union_def z_as_def z_string_def z_number_def
      z_boolean_def)

lemma success_record_items:
  "list_all success (map (\<lambda>(k, x). globalValueSchema (p @ [Key k]) (Some x)) kvs) \<longleftrightarrow>
     list_all (\<lambda>(k, x). isGlobalValue x) kvs"
  by (induction kvs) (auto simp: success_globalValueSchema)

lemma success_sum_case:
  "success (case r of Inl is \<Rightarrow> Inl is | Inr a \<Rightarrow> Inr (f a)) \<longleftrightarrow> success r"
  by (cases r) simp_all

lemma success_z_record:
  "success (z_record globalValueSchema p v) \<longleftrightarrow> v \<noteq> None \<and> conformsGlobals v"
proof (cases v rule: conformsGlobals.cases)
  case (2 kvs)
  then show ?thesis
    by (simp add: z_record_def success_sum_case success_mergeResults success_record_items)
qed (simp_all add: z_record_def)

lemma success_templateSchema:
  "success (templateSchema p (Some x)) \<longleftrightarrow> isTemplateEntry x"
  by (cases x)
    (simp_all add: templateSchema_def success_mergeObject success_z_string unrecognized_Nil)

lemma success_parseItems:
  "list_all success (parseItems templateSchema p i xs) \<longleftrightarrow> list_all isTemplateEntry xs"
  by (induction xs arbitrary: i) (auto simp: success_templateSchema)

lemma success_z_array:
  "success (z_array templateSchema p v) \<longleftrightarrow> v \<noteq> None \<and> conformsTemplates v"
proof (cases v rule: conformsTemplates.cases)
  case (2 xs)
  then show ?thesis
    by (simp add: z_array_def success_mergeResults success_parseItems)
qed (simp_all add: z_array_def)

lemma success_newSchema:
  "success (newSchema p v) \<longleftrightarrow> v \<noteq> None \<and> conformsNew v"
proof (cases v rule: conformsNew.cases)
  case (2 kvs)
  have t: "success (z_optional (z_array templateSchema) (p @ [Key ''templates''])
      (map_of kvs ''templates'')) \<longleftrightarrow> conformsTemplates (map_of kvs ''templates'')"
    by (cases "map_of kvs ''templates''") (simp_all add: success_z_optional success_z_array)
  have g: "success (z_optional (z_record globalValueSchema) (p @ [Key ''globals''])
      (map_of kvs ''globals'')) \<longleftrightarrow> conformsGlobals (map_of kvs ''globals'')"
    by (cases "map_of kvs ''globals''") (simp_all add: success_z_optional success_z_record)
  show ?thesis unfolding 2
    by (auto simp: newSchema_def success_mergeObject t g unrecognized_Nil)
qed (simp_all add: newSchema_def)

lemma success_backstageSchema:
  "success (backstageSchema p v) \<longleftrightarrow> isObject v \<and> conformsNew (field ''new'' v)"
proof (cases v rule: isObject.cases)
  case (1 kvs)
  then show ?thesis
    by (cases "map_of kvs ''new''")
      (simp_all add: backstageSchema_def success_sum_case success_z_optional success_newSchema)
qed (simp_all add: backstageSchema_def)

lemma success_safeParse: "success (safeParse pkgJson) \<longleftrightarrow> conformsManifest pkgJson"
proof (cases pkgJson)
  case (JObj kvs)
  show ?thesis
  proof (cases "map_of kvs ''backstage''")
    case None
    with JObj show ?thesis
      by (simp add: safeParse_def pkgJsonWithNewConfigSchema_def success_sum_case
          success_z_optional conformsManifest_def declaredNew_def)
  next
    case (Some b)
    with JObj show ?thesis
      by (cases b)
        (simp_all add: safeParse_def pkgJsonWithNewConfigSchema_def success_sum_case
          success_z_optional success_backstageSchema conformsManifest_def declaredNew_def)
  qed
qed (simp_all add: safeParse_def pkgJsonWithNewConfigSchema_def conformsManifest_def)

subsection \<open>Which issues a rejected manifest carries\<close>

lemma field_SomeD:
  "field k v = Some x \<Longrightarrow> \<exists>kvs. v = Some (JObj kvs) \<and> map_of kvs k = Some x"
  by (cases "(k, v)" rule: field.cases) simp_all

lemma issues_sum_case:
  "issues (case r of Inl is \<Rightarrow> Inl is | Inr a \<Rightarrow> Inr (f a)) = issues r"
  by (cases r) simp_all

lemma issues_z_optional: "issues (z_optional s p (Some x)) = issues (s p (Some x))"
  by (simp add: z_optional_def issues_sum_case)

lemma issues_z_array:
  "issues (z_array s p (Some (JArr xs))) = concat (map issues (parseItems s p 0 xs))"
  by (simp add: z_array_def issues_mergeResults)

lemma issues_z_record:
  "issues (z_record s p (Some (JObj kvs))) =
     concat (map (\<lambda>(k, x). issues (s (p @ [Key k]) (Some x))) kvs)"
proof -
  have "map issues (map (\<lambda>(k, x). s (p @ [Key k]) (Some x)) kvs) =
      map (\<lambda>(k, x). issues (s (p @ [Key k]) (Some x))) kvs"
    by (induction kvs) auto
  then show ?thesis
    by (simp add: z_record_def issues_sum_case issues_mergeResults del: map_map)
qed

lemma parseItems_nth:
  "i < length xs \<Longrightarrow> parseItems s p n xs ! i = s (p @ [Index (n + i)]) (Some (xs ! i))"
proof (induction xs arbitrary: i n)
  case Nil
  then show ?case by simp
next
  case (Cons x xs)
  then show ?case by (cases i) simp_all
qed

lemma length_parseItems: "length (parseItems s p n xs) = length xs"
  by (induction xs arbitrary: n) simp_all

lemma issues_item:
  assumes "i < length xs"
  shows "set (issues (s (p @ [Index i]) (Some (xs ! i)))) \<subseteq>
           set (issues (z_array s p (Some (JArr xs))))"
proof -
  from assms have "parseItems s p 0 xs ! i \<in> set (parseItems s p 0 xs)"
    by (simp add: length_parseItems)
  with assms have "s (p @ [Index i]) (Some (xs ! i)) \<in> set (parseItems s p 0 xs)"
    by (simp add: parseItems_nth)
  then show ?thesis by (auto simp: issues_z_array)
qed

lemma issues_entry:
  assumes "(k, x) \<in> set kvs"
  shows "set (issues (s (p @ [Key k]) (Some x))) \<subseteq>
           set (issues (z_record s p (Some (JObj kvs))))"
  using assms by (force simp: issues_z_record)

lemma unrecognized_key:
  assumes "k \<in> set (map fst kvs)" and "k \<notin> set shapeKeys"
  shows "\<exists>ks. unrecognized shapeKeys p kvs = [unrecognized_keys p ks] \<and> k \<in> set ks"
proof -
  let ?extra = "filter (\<lambda>k. k \<notin> set shapeKeys) (map fst kvs)"
  from assms have k: "k \<in> set ?extra" by simp
  then have "?extra \<noteq> []" by (cases ?extra) simp_all
  then have "unrecognized shapeKeys p kvs = [unrecognized_keys p ?extra]"
    by (simp add: unrecognized_def Let_def)
  with k show ?thesis by blast
qed

lemma issues_newSchema:
  "issues (newSchema p (Some (JObj kvs))) =
     issues (z_optional (z_array templateSchema) (p @ [Key ''templates''])
       (map_of kvs ''templates'')) @
     issues (z_optional (z_record globalValueSchema) (p @ [Key ''globals''])
       (map_of kvs ''globals'')) @
     unrecognized [''templates'', ''globals''] p kvs"
  by (simp add: newSchema_def issues_mergeObject)

lemma issues_templateSchema:
  "issues (templateSchema p (Some (JObj kvs))) =
     issues (z_string (p @ [Key ''id'']) (map_of kvs ''id'')) @
     issues (z_string (p @ [Key ''target'']) (map_of kvs ''target'')) @
     unrecognized [''id'', ''target''] p kvs"
  by (simp add: templateSchema_def issues_mergeObject)

lemma issues_safeParse_new:
  assumes "declaredNew pkgJson = Some n"
  shows "issues (safeParse pkgJson) = issues (newSchema [Key ''backstage'', Key ''new''] (Some n))"
proof -
  from assms obtain b where b: "field ''backstage'' (Some pkgJson) = Some (JObj b)"
    and n: "map_of b ''new'' = Some n"
    unfolding declaredNew_def by (auto dest!: field_SomeD)
  from b obtain top where "pkgJson = JObj top" and "map_of top ''backstage'' = Some (JObj b)"
    by (auto dest!: field_SomeD)
  with n show ?thesis
    by (simp add: safeParse_def pkgJsonWithNewConfigSchema_def backstageSchema_def
        issues_sum_case issues_z_optional)
qed

lemma issues_unknown_key_under_new:
  assumes "declaredNew pkgJson = Some (JObj kvs)"
    and "k \<in> set (map fst kvs)" and "k \<noteq> ''templates''" and "k \<noteq> ''globals''"
  shows "\<exists>ks. unrecognized_keys [Key ''backstage'', Key ''new''] ks \<in> set (issues (safeParse pkgJson))
           \<and> k \<in> set ks"
proof -
  from assms(2-4) obtain ks where
    "unrecognized [''templates'', ''globals''] [Key ''backstage'', Key ''new''] kvs
       = [unrecognized_keys [Key ''backstage'', Key ''new''] ks]" and "k \<in> set ks"
    using unrecognized_key [of k kvs "[''templates'', ''globals'']"] by auto
  then show ?thesis
    by (auto simp: issues_safeParse_new [OF assms(1)] issues_newSchema)
qed

lemma issues_safeParse_templates:
  assumes "declaredTemplates pkgJson = Some (JArr ts)"
  shows "set (issues (z_array templateSchema [Key ''backstage'', Key ''new'', Key ''templates'']
            (Some (JArr ts)))) \<subseteq> set (issues (safeParse pkgJson))"
proof -
  from assms obtain kvs where n: "declaredNew pkgJson = Some (JObj kvs)"
    and t: "map_of kvs ''templates'' = Some (JArr ts)"
    unfolding declaredTemplates_def by (auto dest!: field_SomeD)
  show ?thesis
    by (simp add: issues_safeParse_new [OF n] issues_newSchema t issues_z_optional)
qed

lemma issues_safeParse_globals:
  assumes "declaredGlobals pkgJson = Some (JObj gs)"
  shows "set (issues (z_record globalValueSchema [Key ''backstage'', Key ''new'', Key ''globals'']
            (Some (JObj gs)))) \<subseteq> set (issues (safeParse pkgJson))"
proof -
  from assms obtain kvs where n: "declaredNew pkgJson = Some (JObj kvs)"
    and g: "map_of kvs ''globals'' = Some (JObj gs)"
    unfolding declaredGlobals_def by (auto dest!: field_SomeD)
  show ?thesis
    by (auto simp: issues_safeParse_new [OF n] issues_newSchema g issues_z_optional)
qed

lemma loadConfig_rejects:
  assumes "readJson env (pkgPathOf env options) = Inr pkgJson"
    and "issues (safeParse pkgJson) \<noteq> []"
  shows "loadConfig env options =
           Inl (ForwardedError (failureMessage (pkgPathOf env options))
                  (fromZodError (issues (safeParse pkgJson))))"
  using assms by (cases "safeParse pkgJson") (simp_all add: loadConfig_def)

lemma loadConfig_accepts_iff:
  assumes "readJson env (pkgPathOf env options) = Inr pkgJson"
  shows "(\<exists>config. loadConfig env options = Inr config) \<longleftrightarrow> success (safeParse pkgJson)"
  using assms by (cases "safeParse pkgJson") (simp_all add: loadConfig_def Let_def)

lemma issues_globalValueSchema:
  "\<not> isGlobalValue x \<Longrightarrow> \<exists>es. issues (globalValueSchema p (Some x)) = [invalid_union p es]"
  by (cases x)
    (simp_all add: globalValueSchema_def z_union_def z_as_def z_string_def z_number_def
      z_boolean_def)

lemma failureMessage_names_path:
  "failureMessage pkgPath =
     ''Failed to load templating configuration from '' @ [CHR 0x27] @ pkgPath @ [CHR 0x27]"
  by (simp add: failureMessage_def)


subsection \<open>The defaults in every overlay\<close>

lemma dom_defaultGlobals:
  "dom defaultGlobals = {''license'', ''baseVersion'', ''private''}"
  by (auto simp: defaultGlobals_def)

lemma default_keys_in_overlay:
  "{''license'', ''baseVersion'', ''private''} \<subseteq> dom (defaultGlobals ++ m ++ m')"
  by (simp add: dom_defaultGlobals)

lemma loadConfig_globals_form:
  assumes "loadConfig env options = Inr config"
  shows "\<exists>m. NewConfig.globals config = defaultGlobals ++ m ++ spread (globalOverrides options)"
proof (cases "readJson env (pkgPathOf env options)")
  case (Inl e)
  with assms show ?thesis by (simp add: loadConfig_def)
next
  case (Inr pkgJson)
  from loadConfig_Inr [OF Inr assms] show ?thesis by blast
qed

section \<open>The claims about \<^verbatim>\<open>loadConfig\<close>\<close>

lemmas schema_defs =
  safeParse_def pkgJsonWithNewConfigSchema_def backstageSchema_def newSchema_def
  templateSchema_def globalValueSchema_def mergeObject_def z_optional_def z_array_def
  z_record_def
  z_union_def z_as_def z_string_def z_number_def z_boolean_def unrecognized_def

lemma manifestEnv_read:
  "readJson (manifestEnv m) (pkgPathOf (manifestEnv m) noOptions) = Inr m"
  by (simp add: manifestEnv_def pkgPathOf_def noOptions_def)

lemma example_overlay:
  "defaultGlobals ++ [''baseVersion'' \<mapsto> GStr ''0.2.0''] ++ [''private'' \<mapsto> GBool False] =
     [''license'' \<mapsto> GStr ''Apache-2.0'', ''baseVersion'' \<mapsto> GStr ''0.2.0'',
      ''private'' \<mapsto> GBool False]"
  by (simp add: defaultGlobals_def fun_eq_iff map_add_def)

text \<open>
  Claim C1 says that for every manifest the \<^verbatim>\<open>globals\<close> of the returned \<^verbatim>\<open>NewConfig\<close> are the
  defaults, overlaid with the globals the manifest declares, overlaid with the overrides.
  For the manifest \<^verbatim>\<open>{"backstage": {"new": {"globals": {"__proto__": "x"}}}}\<close> and no
  overrides that overlay has the key \<^verbatim>\<open>__proto__\<close>, and the \<^verbatim>\<open>globals\<close> that \<^verbatim>\<open>loadConfig\<close>
  returns are the defaults alone: the record schema validated the entry and left it out of
  the parsed data.
\<close>

theorem globals_leave_out_proto_key:
  "loadConfig (manifestEnv protoManifest) noOptions =
     Inr \<lparr>isUsingDefaultTemplates = True, templatePointers = sampleTemplates,
          globals = defaultGlobals\<rparr> \<and>
   (defaultGlobals ++ entriesOf (declaredGlobals protoManifest)
      ++ spread (globalOverrides (noOptions :: int LoadConfigOptions))) ''__proto__''
     = Some (GStr ''x'') \<and>
   (defaultGlobals :: int globals_map) ''__proto__'' = None"
proof -
  have p: "safeParse protoManifest =
      Inr \<lparr>backstage = Some \<lparr>new = Some \<lparr>templates = None, globals = Some Map.empty\<rparr>\<rparr>\<rparr>"
    by (simp add: protoManifest_def schema_defs)
  have "loadConfig (manifestEnv protoManifest) noOptions =
     Inr \<lparr>isUsingDefaultTemplates = True, templatePointers = sampleTemplates,
          globals = defaultGlobals\<rparr>"
    unfolding loadConfig_def Let_def
    by (simp add: p manifestEnv_def pkgPathOf_def noOptions_def)
  moreover have "(defaultGlobals ++ entriesOf (declaredGlobals protoManifest)
      ++ spread (globalOverrides (noOptions :: int LoadConfigOptions))) ''__proto__''
     = Some (GStr ''x'')"
    by (simp add: protoManifest_def declaredGlobals_def declaredNew_def noOptions_def)
  moreover have "(defaultGlobals :: int globals_map) ''__proto__'' = None"
    by (simp add: defaultGlobals_def)
  ultimately show ?thesis by (intro conjI)
qed

text \<open>
  Claim C1, amended. Whatever manifest \<^verbatim>\<open>fs.readJson\<close> returns and whatever overrides the
  caller passes, the \<^verbatim>\<open>globals\<close> of a returned \<^verbatim>\<open>NewConfig\<close> are the built-in defaults,
  overlaid with the globals the manifest declares at \<^verbatim>\<open>backstage.new.globals\<close> under keys
  other than \<^verbatim>\<open>__proto__\<close>, overlaid with the caller's \<^verbatim>\<open>globalOverrides\<close>. A later layer
  wins on a key that an earlier one has: a key is read from the overrides, else from the
  manifest's globals, else from the defaults. When the manifest declares no global named
  \<^verbatim>\<open>__proto__\<close>, the middle layer is all the globals it declares.
  With manifest globals \<^verbatim>\<open>{baseVersion: '0.2.0'}\<close> and the override \<^verbatim>\<open>{private: false}\<close> the
  result is \<^verbatim>\<open>{license: 'Apache-2.0', baseVersion: '0.2.0', private: false}\<close>.
\<close>

theorem loadConfig_globals_precedence:
  "(readJson env (pkgPathOf env options) = Inr pkgJson \<and> loadConfig env options = Inr config
      \<longrightarrow> NewConfig.globals config =
            defaultGlobals ++ globalsOf (declaredGlobals pkgJson)
              ++ spread (globalOverrides options) \<and>
          (\<forall>k. NewConfig.globals config k =
             (case spread (globalOverrides options) k of
                Some v \<Rightarrow> Some v
              | None \<Rightarrow>
                  (case globalsOf (declaredGlobals pkgJson) k of
                     Some v \<Rightarrow> Some v
                   | None \<Rightarrow> defaultGlobals k))) \<and>
          (entriesOf (declaredGlobals pkgJson) ''__proto__'' = None \<longrightarrow>
             NewConfig.globals config =
               defaultGlobals ++ entriesOf (declaredGlobals pkgJson)
                 ++ spread (globalOverrides options))) \<and>
   (readJson env' (pkgPathOf env' options') =
        Inr (JObj [(''backstage'', JObj [(''new'', JObj [(''globals'',
               JObj [(''baseVersion'', JStr ''0.2.0'')])])])]) \<and>
    globalOverrides options' = Some [''private'' \<mapsto> GBool False]
      \<longrightarrow> (\<exists>config'. loadConfig env' options' = Inr config' \<and>
             NewConfig.globals config' =
               [''license'' \<mapsto> GStr ''Apache-2.0'',
                ''baseVersion'' \<mapsto> GStr ''0.2.0'',
                ''private'' \<mapsto> GBool False]))"
proof -
  have general: "NewConfig.globals config =
      defaultGlobals ++ globalsOf (declaredGlobals pkgJson) ++ spread (globalOverrides options) \<and>
    (\<forall>k. NewConfig.globals config k =
       (case spread (globalOverrides options) k of
          Some v \<Rightarrow> Some v
        | None \<Rightarrow>
            (case globalsOf (declaredGlobals pkgJson) k of
               Some v \<Rightarrow> Some v
             | None \<Rightarrow> defaultGlobals k))) \<and>
    (entriesOf (declaredGlobals pkgJson) ''__proto__'' = None \<longrightarrow>
       NewConfig.globals config =
         defaultGlobals ++ entriesOf (declaredGlobals pkgJson)
           ++ spread (globalOverrides options))"
    if "readJson env (pkgPathOf env options) = Inr pkgJson \<and> loadConfig env options = Inr config"
  proof -
    from that obtain parsed where "safeParse pkgJson = Inr parsed"
      and "NewConfig.globals config =
         defaultGlobals ++ spread (Option.bind (newOf parsed) new_data.globals)
           ++ spread (globalOverrides options)"
      by (elim conjE loadConfig_InrE)
    then have g: "NewConfig.globals config =
        defaultGlobals ++ globalsOf (declaredGlobals pkgJson) ++ spread (globalOverrides options)"
      by (simp add: safeParse_globals)
    then have pointwise: "\<forall>k. NewConfig.globals config k =
       (case spread (globalOverrides options) k of
          Some v \<Rightarrow> Some v
        | None \<Rightarrow>
            (case globalsOf (declaredGlobals pkgJson) k of
               Some v \<Rightarrow> Some v
             | None \<Rightarrow> defaultGlobals k))"
      by (simp add: map_add_def split: option.split)
    have "globalsOf (declaredGlobals pkgJson) = entriesOf (declaredGlobals pkgJson)"
      if "entriesOf (declaredGlobals pkgJson) ''__proto__'' = None"
      using that by (auto simp: globalsOf_def fun_eq_iff)
    with g pointwise show ?thesis by simp
  qed
  let ?m = "JObj [(''backstage'', JObj [(''new'', JObj [(''globals'',
               JObj [(''baseVersion'', JStr ''0.2.0'')])])])]"
  have example: "\<exists>config'. loadConfig env' options' = Inr config' \<and>
      NewConfig.globals config' =
        [''license'' \<mapsto> GStr ''Apache-2.0'', ''baseVersion'' \<mapsto> GStr ''0.2.0'',
         ''private'' \<mapsto> GBool False]"
    if a: "readJson env' (pkgPathOf env' options') = Inr ?m \<and>
      globalOverrides options' = Some [''private'' \<mapsto> GBool False]"
  proof -
    have p: "safeParse ?m = Inr \<lparr>backstage = Some \<lparr>new = Some \<lparr>templates = None,
        globals = Some [''baseVersion'' \<mapsto> GStr ''0.2.0'']\<rparr>\<rparr>\<rparr>"
      by (simp add: schema_defs)
    from a have "loadConfig env' options' =
        Inr \<lparr>isUsingDefaultTemplates = True, templatePointers = defaultTemplates env',
          globals = defaultGlobals ++ [''baseVersion'' \<mapsto> GStr ''0.2.0'']
            ++ [''private'' \<mapsto> GBool False]\<rparr>"
      unfolding loadConfig_def Let_def by (simp add: p)
    then show ?thesis
      using example_overlay by simp
  qed
  show ?thesis
  proof (rule conjI)
    from general show "readJson env (pkgPathOf env options) = Inr pkgJson \<and>
        loadConfig env options = Inr config \<longrightarrow>
      NewConfig.globals config =
        defaultGlobals ++ globalsOf (declaredGlobals pkgJson) ++ spread (globalOverrides options) \<and>
      (\<forall>k. NewConfig.globals config k =
         (case spread (globalOverrides options) k of
            Some v \<Rightarrow> Some v
          | None \<Rightarrow>
              (case globalsOf (declaredGlobals pkgJson) k of
                 Some v \<Rightarrow> Some v
               | None \<Rightarrow> defaultGlobals k))) \<and>
      (entriesOf (declaredGlobals pkgJson) ''__proto__'' = None \<longrightarrow>
         NewConfig.globals config =
           defaultGlobals ++ entriesOf (declaredGlobals pkgJson)
             ++ spread (globalOverrides options))"
      by (rule impI)
    from example show "readJson env' (pkgPathOf env' options') = Inr ?m \<and>
        globalOverrides options' = Some [''private'' \<mapsto> GBool False] \<longrightarrow>
      (\<exists>config'. loadConfig env' options' = Inr config' \<and>
         NewConfig.globals config' =
           [''license'' \<mapsto> GStr ''Apache-2.0'', ''baseVersion'' \<mapsto> GStr ''0.2.0'',
            ''private'' \<mapsto> GBool False])"
      by (rule impI)
  qed
qed

theorem loadConfig_globals_precedence_witness:
  "readJson (manifestEnv globalsManifest) (pkgPathOf (manifestEnv globalsManifest) privateOverride)
     = Inr globalsManifest \<and>
   (\<exists>config. loadConfig (manifestEnv globalsManifest) privateOverride = Inr config \<and>
      NewConfig.globals config =
        [''license'' \<mapsto> GStr ''Apache-2.0'', ''baseVersion'' \<mapsto> GStr ''0.2.0'',
         ''private'' \<mapsto> GBool False])"
proof -
  let ?env = "manifestEnv globalsManifest"
  have r: "readJson ?env (pkgPathOf ?env privateOverride) = Inr globalsManifest"
    by (simp add: manifestEnv_def pkgPathOf_def privateOverride_def)
  have "success (safeParse globalsManifest)"
    by (simp add: globalsManifest_def schema_defs)
  then obtain config where c: "loadConfig ?env privateOverride = Inr config"
    using r by (cases "safeParse globalsManifest") (auto simp: loadConfig_def Let_def)
  from r c have "readJson ?env (pkgPathOf ?env privateOverride) = Inr globalsManifest \<and>
      loadConfig ?env privateOverride = Inr config" ..
  with loadConfig_globals_precedence [of ?env privateOverride globalsManifest config,
      THEN conjunct1]
  have "NewConfig.globals config =
      defaultGlobals ++ globalsOf (declaredGlobals globalsManifest)
        ++ spread (globalOverrides privateOverride)"
    by simp
  then have "NewConfig.globals config =
      [''license'' \<mapsto> GStr ''Apache-2.0'', ''baseVersion'' \<mapsto> GStr ''0.2.0'',
       ''private'' \<mapsto> GBool False]"
    by (simp add: globalsManifest_def declaredGlobals_def declaredNew_def privateOverride_def
        defaultGlobals_def globalsOf_def fun_eq_iff map_add_def)
  with r c show ?thesis by blast
qed

text \<open>
  Claim C2. When the manifest passes validation and declares no \<^verbatim>\<open>backstage.new.templates\<close>
  array, \<^verbatim>\<open>loadConfig\<close> returns a \<^verbatim>\<open>NewConfig\<close> whose \<^verbatim>\<open>isUsingDefaultTemplates\<close> is true and
  whose \<^verbatim>\<open>templatePointers\<close> are the built-in \<^verbatim>\<open>defaultTemplates\<close>.
\<close>

theorem loadConfig_default_templates:
  assumes "readJson env (pkgPathOf env options) = Inr pkgJson"
    and "success (safeParse pkgJson)"
    and "\<not> isArray (declaredTemplates pkgJson)"
  shows "\<exists>config. loadConfig env options = Inr config \<and>
           isUsingDefaultTemplates config = True \<and>
           templatePointers config = defaultTemplates env"
proof -
  from loadConfig_success [OF assms(1,2)] obtain config
    where c: "loadConfig env options = Inr config" ..
  from assms(1) c obtain parsed
    where p: "safeParse pkgJson = Inr parsed"
      and u: "isUsingDefaultTemplates config = (Option.bind (newOf parsed) templates = None)"
      and t: "templatePointers config =
        (case Option.bind (newOf parsed) templates of Some ts \<Rightarrow> ts
         | None \<Rightarrow> defaultTemplates env)"
    by (rule loadConfig_InrE)
  from safeParse_templates [OF p] assms(3)
  have "Option.bind (newOf parsed) templates = None"
    by (auto simp: isArray_iff)
  with c u t show ?thesis by simp
qed

theorem loadConfig_default_templates_witness:
  "readJson (manifestEnv bareManifest) (pkgPathOf (manifestEnv bareManifest) noOptions)
     = Inr bareManifest \<and>
   success (safeParse bareManifest) \<and>
   \<not> isArray (declaredTemplates bareManifest) \<and>
   (\<exists>config. loadConfig (manifestEnv bareManifest) noOptions = Inr config \<and>
      isUsingDefaultTemplates config = True \<and>
      templatePointers config = sampleTemplates)"
proof -
  have s: "success (safeParse bareManifest)"
    by (simp add: bareManifest_def schema_defs)
  have a: "\<not> isArray (declaredTemplates bareManifest)"
    by (simp add: bareManifest_def declaredTemplates_def declaredNew_def)
  have d: "defaultTemplates (manifestEnv bareManifest) = sampleTemplates"
    by (simp add: manifestEnv_def)
  from loadConfig_default_templates [OF manifestEnv_read s a] manifestEnv_read s a d
  show ?thesis by simp
qed

text \<open>
  Claim C3. When the manifest passes validation and declares a \<^verbatim>\<open>backstage.new.templates\<close>
  array, the empty array included, \<^verbatim>\<open>loadConfig\<close> returns \<^verbatim>\<open>isUsingDefaultTemplates\<close> false
  and \<^verbatim>\<open>templatePointers\<close> is the declared array: as long as it, and entry by entry, in the
  same order, the pointer with the \<^verbatim>\<open>id\<close> and \<^verbatim>\<open>target\<close> of the declared entry, which has no
  other key.
\<close>

theorem loadConfig_declared_templates:
  assumes "readJson env (pkgPathOf env options) = Inr pkgJson"
    and "success (safeParse pkgJson)"
    and "declaredTemplates pkgJson = Some (JArr ts)"
  shows "\<exists>config. loadConfig env options = Inr config \<and>
           isUsingDefaultTemplates config = False \<and>
           list_all2 represents ts (templatePointers config) \<and>
           (ts = [] \<longrightarrow> templatePointers config = [])"
proof -
  from loadConfig_success [OF assms(1,2)] obtain config
    where c: "loadConfig env options = Inr config" ..
  from assms(1) c obtain parsed
    where p: "safeParse pkgJson = Inr parsed"
      and u: "isUsingDefaultTemplates config = (Option.bind (newOf parsed) templates = None)"
      and t: "templatePointers config =
        (case Option.bind (newOf parsed) templates of Some ts \<Rightarrow> ts
         | None \<Rightarrow> defaultTemplates env)"
    by (rule loadConfig_InrE)
  from safeParse_templates [OF p] assms(3) obtain tps
    where "Option.bind (newOf parsed) templates = Some tps" and "list_all2 represents ts tps"
    by auto
  with c u t show ?thesis by auto
qed

theorem loadConfig_declared_templates_witness:
  "(\<exists>config. loadConfig (manifestEnv templatesManifest) noOptions = Inr config \<and>
      isUsingDefaultTemplates config = False \<and>
      templatePointers config =
        [\<lparr>template_pointer.id' = ''plugin'', target = ''plugins/x''\<rparr>,
         \<lparr>template_pointer.id' = ''library'', target = ''packages/y''\<rparr>]) \<and>
   (\<exists>config. loadConfig (manifestEnv emptyTemplatesManifest) noOptions = Inr config \<and>
      isUsingDefaultTemplates config = False \<and> templatePointers config = [])"
proof -
  let ?ts = "[JObj [(''id'', JStr ''plugin''), (''target'', JStr ''plugins/x'')],
              JObj [(''target'', JStr ''packages/y''), (''id'', JStr ''library'')]] :: int json list"
  have s: "success (safeParse templatesManifest)"
    by (simp add: templatesManifest_def schema_defs)
  have d: "declaredTemplates templatesManifest = Some (JArr ?ts)"
    by (simp add: templatesManifest_def declaredTemplates_def declaredNew_def)
  have r: "list_all2 represents ?ts tps \<Longrightarrow>
      tps = [\<lparr>template_pointer.id' = ''plugin'', target = ''plugins/x''\<rparr>,
             \<lparr>template_pointer.id' = ''library'', target = ''packages/y''\<rparr>]" for tps
    by (auto simp: list_all2_Cons1)
  have s': "success (safeParse emptyTemplatesManifest)"
    by (simp add: emptyTemplatesManifest_def schema_defs)
  have d': "declaredTemplates emptyTemplatesManifest = Some (JArr [])"
    by (simp add: emptyTemplatesManifest_def declaredTemplates_def declaredNew_def)
  from loadConfig_declared_templates [OF manifestEnv_read s d]
    loadConfig_declared_templates [OF manifestEnv_read s' d'] r
  show ?thesis by auto
qed

text \<open>
  Claim C4. When an entry of the manifest's \<^verbatim>\<open>backstage.new.templates\<close> array has a key other
  than \<^verbatim>\<open>id\<close> and \<^verbatim>\<open>target\<close>, \<^verbatim>\<open>loadConfig\<close> returns no \<^verbatim>\<open>NewConfig\<close>: it fails with the
  error that the specification calls \<^verbatim>\<open>ConfigValidationError\<close> and the source builds with
  \<^verbatim>\<open>new ForwardedError(...)\<close>. Its message names the path of the manifest, and its cause
  wraps the issues of the schema, one of which reports the unrecognised key at the entry.
\<close>

theorem loadConfig_rejects_unknown_template_key:
  assumes "readJson env (pkgPathOf env options) = Inr pkgJson"
    and "declaredTemplates pkgJson = Some (JArr ts)"
    and "i < length ts" and "ts ! i = JObj kvs"
    and "k \<in> set (map fst kvs)" and "k \<noteq> ''id''" and "k \<noteq> ''target''"
  shows "\<exists>zodIssues ks.
           loadConfig env options =
             Inl (ForwardedError
                    (''Failed to load templating configuration from '' @ [CHR 0x27]
                       @ pkgPathOf env options @ [CHR 0x27])
                    (fromZodError zodIssues)) \<and>
           details (fromZodError zodIssues) = zodIssues \<and>
           unrecognized_keys [Key ''backstage'', Key ''new'', Key ''templates'', Index i] ks
             \<in> set zodIssues \<and>
           k \<in> set ks"
proof -
  let ?p = "[Key ''backstage'', Key ''new'', Key ''templates'']"
  from assms(5-7) obtain ks where
    u: "unrecognized [''id'', ''target''] (?p @ [Index i]) kvs
          = [unrecognized_keys (?p @ [Index i]) ks]" and k: "k \<in> set ks"
    using unrecognized_key [of k kvs "[''id'', ''target'']"] by auto
  then have "unrecognized_keys (?p @ [Index i]) ks
      \<in> set (issues (templateSchema (?p @ [Index i]) (Some (ts ! i))))"
    by (simp add: assms(4) issues_templateSchema)
  with issues_item [OF assms(3), of templateSchema ?p]
  have "unrecognized_keys (?p @ [Index i]) ks
      \<in> set (issues (z_array templateSchema ?p (Some (JArr ts))))"
    by blast
  with issues_safeParse_templates [OF assms(2)]
  have m: "unrecognized_keys (?p @ [Index i]) ks \<in> set (issues (safeParse pkgJson))"
    by blast
  then have "issues (safeParse pkgJson) \<noteq> []" by auto
  from loadConfig_rejects [OF assms(1) this] m k show ?thesis
    by (auto simp: failureMessage_names_path fromZodError_def)
qed

theorem loadConfig_rejects_unknown_template_key_witness:
  "\<exists>zodIssues ks.
     loadConfig (manifestEnv extraKeyManifest) noOptions =
       Inl (ForwardedError
              (''Failed to load templating configuration from '' @ [CHR 0x27]
                 @ ''/repo/package.json'' @ [CHR 0x27])
              (fromZodError zodIssues)) \<and>
     unrecognized_keys [Key ''backstage'', Key ''new'', Key ''templates'', Index 1] ks
       \<in> set zodIssues \<and>
     ''description'' \<in> set ks"
proof -
  let ?entry = "[(''id'', JStr ''library''), (''target'', JStr ''packages/y''),
                 (''description'', JStr ''a library'')] :: (string \<times> int json) list"
  let ?ts = "[JObj [(''id'', JStr ''plugin''), (''target'', JStr ''plugins/x'')], JObj ?entry]"
  have d: "declaredTemplates extraKeyManifest = Some (JArr ?ts)"
    by (simp add: extraKeyManifest_def declaredTemplates_def declaredNew_def)
  have p: "pkgPathOf (manifestEnv extraKeyManifest) noOptions = ''/repo/package.json''"
    by (simp add: pkgPathOf_def manifestEnv_def noOptions_def)
  have "\<exists>zodIssues ks.
     loadConfig (manifestEnv extraKeyManifest) noOptions =
       Inl (ForwardedError
              (''Failed to load templating configuration from '' @ [CHR 0x27]
                 @ pkgPathOf (manifestEnv extraKeyManifest) noOptions @ [CHR 0x27])
              (fromZodError zodIssues)) \<and>
     details (fromZodError zodIssues) = zodIssues \<and>
     unrecognized_keys [Key ''backstage'', Key ''new'', Key ''templates'', Index 1] ks
       \<in> set zodIssues \<and>
     ''description'' \<in> set ks"
    by (rule loadConfig_rejects_unknown_template_key
        [OF manifestEnv_read d, of 1 ?entry "''description''"]) simp_all
  then show ?thesis unfolding p by blast
qed

text \<open>
  Claim C5 says that validation accepts a manifest exactly when its optional
  \<^verbatim>\<open>backstage.new\<close> block conforms to the strict schema. The manifest
  \<^verbatim>\<open>{"name": "root", "backstage": null}\<close> has no \<^verbatim>\<open>backstage.new\<close> block, so the block
  conforms, and \<^verbatim>\<open>loadConfig\<close> still rejects it: the schema wants \<^verbatim>\<open>backstage\<close> to be an
  object.
\<close>

theorem validation_fails_outside_new_block:
  "conformsNew (declaredNew nullBackstageManifest) \<and>
   loadConfig (manifestEnv nullBackstageManifest) noOptions =
     Inl (ForwardedError (failureMessage ''/repo/package.json'')
            (fromZodError [invalid_type [Key ''backstage''] T_object T_null]))"
  by (simp add: nullBackstageManifest_def declaredNew_def loadConfig_def pkgPathOf_def
      manifestEnv_def noOptions_def safeParse_def pkgJsonWithNewConfigSchema_def
      z_optional_def backstageSchema_def)

text \<open>
  Claim C5, amended. Validation accepts a manifest exactly when the manifest is an object,
  its \<^verbatim>\<open>backstage\<close>, when present, is an object, and its optional \<^verbatim>\<open>backstage.new\<close> block
  conforms to the strict schema. \<^verbatim>\<open>loadConfig\<close> rejects every manifest whose
  \<^verbatim>\<open>backstage.new\<close> object has a key other than \<^verbatim>\<open>templates\<close> and \<^verbatim>\<open>globals\<close>, and every
  manifest whose \<^verbatim>\<open>backstage.new.globals\<close> has a value that is not a string, a number or a
  boolean; the issues of the error name the offending key.
\<close>

theorem manifest_accepted_iff_conforms:
  assumes "readJson env (pkgPathOf env options) = Inr pkgJson"
  shows "((\<exists>config. loadConfig env options = Inr config) \<longleftrightarrow> conformsManifest pkgJson) \<and>
    (declaredNew pkgJson = Some (JObj kvs) \<and> k \<in> set (map fst kvs) \<and>
       k \<noteq> ''templates'' \<and> k \<noteq> ''globals'' \<longrightarrow>
     (\<exists>zodIssues ks.
        loadConfig env options =
          Inl (ForwardedError (failureMessage (pkgPathOf env options)) (fromZodError zodIssues)) \<and>
        unrecognized_keys [Key ''backstage'', Key ''new''] ks \<in> set zodIssues \<and> k \<in> set ks)) \<and>
    (declaredGlobals pkgJson = Some (JObj gs) \<and> (g, x) \<in> set gs \<and> \<not> isGlobalValue x \<longrightarrow>
     (\<exists>zodIssues es.
        loadConfig env options =
          Inl (ForwardedError (failureMessage (pkgPathOf env options)) (fromZodError zodIssues)) \<and>
        invalid_union [Key ''backstage'', Key ''new'', Key ''globals'', Key g] es
          \<in> set zodIssues))"
proof (intro conjI impI)
  show "(\<exists>config. loadConfig env options = Inr config) \<longleftrightarrow> conformsManifest pkgJson"
    by (simp only: loadConfig_accepts_iff [OF assms] success_safeParse)
next
  assume "declaredNew pkgJson = Some (JObj kvs) \<and> k \<in> set (map fst kvs) \<and>
       k \<noteq> ''templates'' \<and> k \<noteq> ''globals''"
  then obtain ks where m: "unrecognized_keys [Key ''backstage'', Key ''new''] ks
      \<in> set (issues (safeParse pkgJson))" and k: "k \<in> set ks"
    using issues_unknown_key_under_new [of pkgJson kvs k] by blast
  then have "issues (safeParse pkgJson) \<noteq> []" by auto
  from loadConfig_rejects [OF assms this] m k
  show "\<exists>zodIssues ks.
        loadConfig env options =
          Inl (ForwardedError (failureMessage (pkgPathOf env options)) (fromZodError zodIssues)) \<and>
        unrecognized_keys [Key ''backstage'', Key ''new''] ks \<in> set zodIssues \<and> k \<in> set ks"
    by blast
next
  let ?p = "[Key ''backstage'', Key ''new'', Key ''globals'']"
  assume a: "declaredGlobals pkgJson = Some (JObj gs) \<and> (g, x) \<in> set gs \<and> \<not> isGlobalValue x"
  then obtain es where "issues (globalValueSchema (?p @ [Key g]) (Some x))
      = [invalid_union (?p @ [Key g]) es]"
    using issues_globalValueSchema [of x "?p @ [Key g]"] by blast
  with a issues_entry [of g x gs globalValueSchema ?p]
  have "invalid_union (?p @ [Key g]) es
      \<in> set (issues (z_record globalValueSchema ?p (Some (JObj gs))))"
    by auto
  with a issues_safeParse_globals [of pkgJson gs]
  have m: "invalid_union (?p @ [Key g]) es \<in> set (issues (safeParse pkgJson))"
    by blast
  then have "issues (safeParse pkgJson) \<noteq> []" by auto
  from loadConfig_rejects [OF assms this] m
  show "\<exists>zodIssues es.
        loadConfig env options =
          Inl (ForwardedError (failureMessage (pkgPathOf env options)) (fromZodError zodIssues)) \<and>
        invalid_union [Key ''backstage'', Key ''new'', Key ''globals'', Key g] es
          \<in> set zodIssues"
    by auto
qed

theorem manifest_accepted_iff_conforms_witness:
  "conformsManifest templatesManifest \<and>
   (\<exists>config. loadConfig (manifestEnv templatesManifest) noOptions = Inr config) \<and>
   \<not> conformsManifest unknownNewKeyManifest \<and>
   (\<exists>zodIssues ks.
      loadConfig (manifestEnv unknownNewKeyManifest) noOptions =
        Inl (ForwardedError (failureMessage ''/repo/package.json'') (fromZodError zodIssues)) \<and>
      unrecognized_keys [Key ''backstage'', Key ''new''] ks \<in> set zodIssues \<and>
      ''plugins'' \<in> set ks) \<and>
   (\<exists>zodIssues es.
      loadConfig (manifestEnv nestedGlobalManifest) noOptions =
        Inl (ForwardedError (failureMessage ''/repo/package.json'') (fromZodError zodIssues)) \<and>
      invalid_union [Key ''backstage'', Key ''new'', Key ''globals'', Key ''owners''] es
        \<in> set zodIssues)"
proof -
  have p: "pkgPathOf (manifestEnv m) noOptions = ''/repo/package.json''" for m :: "int json"
    by (simp add: pkgPathOf_def manifestEnv_def noOptions_def)
  have c1: "conformsManifest templatesManifest"
    by (simp add: templatesManifest_def conformsManifest_def declaredNew_def)
  have c2: "\<not> conformsManifest unknownNewKeyManifest"
    by (simp add: unknownNewKeyManifest_def conformsManifest_def declaredNew_def)
  let ?kvs = "[(''globals'', JObj [(''license'', JStr ''MIT'')]), (''plugins'', JArr [])]
    :: (string \<times> int json) list"
  have n: "declaredNew unknownNewKeyManifest = Some (JObj ?kvs) \<and>
      ''plugins'' \<in> set (map fst ?kvs) \<and> ''plugins'' \<noteq> ''templates'' \<and>
      ''plugins'' \<noteq> ''globals''"
    by (simp add: unknownNewKeyManifest_def declaredNew_def)
  let ?gs = "[(''license'', JStr ''MIT''), (''owners'', JArr [JStr ''me''])]
    :: (string \<times> int json) list"
  have g: "declaredGlobals nestedGlobalManifest = Some (JObj ?gs) \<and>
      (''owners'', JArr [JStr ''me'']) \<in> set ?gs \<and> \<not> isGlobalValue (JArr [JStr ''me''] :: int json)"
    by (simp add: nestedGlobalManifest_def declaredGlobals_def declaredNew_def)
  note t1 = manifest_accepted_iff_conforms [where env = "manifestEnv templatesManifest"
      and options = noOptions and pkgJson = templatesManifest, OF manifestEnv_read]
  note t2 = manifest_accepted_iff_conforms [where env = "manifestEnv unknownNewKeyManifest"
      and options = noOptions and pkgJson = unknownNewKeyManifest and kvs = ?kvs
      and k = "''plugins''", OF manifestEnv_read]
  note t3 = manifest_accepted_iff_conforms [where env = "manifestEnv nestedGlobalManifest"
      and options = noOptions and pkgJson = nestedGlobalManifest and gs = ?gs
      and g = "''owners''" and x = "JArr [JStr ''me'']", OF manifestEnv_read]
  from t1 c1 have a1: "\<exists>config. loadConfig (manifestEnv templatesManifest) noOptions = Inr config"
    by blast
  from t2 n have a2: "\<exists>zodIssues ks.
      loadConfig (manifestEnv unknownNewKeyManifest) noOptions =
        Inl (ForwardedError (failureMessage ''/repo/package.json'') (fromZodError zodIssues)) \<and>
      unrecognized_keys [Key ''backstage'', Key ''new''] ks \<in> set zodIssues \<and>
      ''plugins'' \<in> set ks"
    unfolding p by blast
  from t3 g have a3: "\<exists>zodIssues es.
      loadConfig (manifestEnv nestedGlobalManifest) noOptions =
        Inl (ForwardedError (failureMessage ''/repo/package.json'') (fromZodError zodIssues)) \<and>
      invalid_union [Key ''backstage'', Key ''new'', Key ''globals'', Key ''owners''] es
        \<in> set zodIssues"
    unfolding p by blast
  from c1 a1 c2 a2 a3 show ?thesis by (intro conjI)
qed

text \<open>
  Claim C10. Every \<^verbatim>\<open>NewConfig\<close> that \<^verbatim>\<open>loadConfig\<close> returns has the keys \<^verbatim>\<open>license\<close>,
  \<^verbatim>\<open>baseVersion\<close> and \<^verbatim>\<open>private\<close> in its \<^verbatim>\<open>globals\<close>; a manifest with no \<^verbatim>\<open>backstage\<close>
  block is accepted and its \<^verbatim>\<open>NewConfig\<close> has them too.
\<close>

theorem loadConfig_globals_default_keys:
  "(loadConfig env options = Inr config \<longrightarrow>
      {''license'', ''baseVersion'', ''private''} \<subseteq> dom (NewConfig.globals config)) \<and>
   (readJson env' (pkgPathOf env' options') = Inr (JObj kvs) \<and> map_of kvs ''backstage'' = None
      \<longrightarrow> (\<exists>config'. loadConfig env' options' = Inr config' \<and>
             {''license'', ''baseVersion'', ''private''} \<subseteq> dom (NewConfig.globals config')))"
proof (intro conjI impI)
  assume "loadConfig env options = Inr config"
  from loadConfig_globals_form [OF this] obtain m
    where "NewConfig.globals config = defaultGlobals ++ m ++ spread (globalOverrides options)" ..
  then show "{''license'', ''baseVersion'', ''private''} \<subseteq> dom (NewConfig.globals config)"
    by (simp only: default_keys_in_overlay)
next
  assume a: "readJson env' (pkgPathOf env' options') = Inr (JObj kvs) \<and>
    map_of kvs ''backstage'' = None"
  then have "success (safeParse (JObj kvs))"
    by (simp add: safeParse_def pkgJsonWithNewConfigSchema_def z_optional_def)
  with a obtain config' where c: "loadConfig env' options' = Inr config'"
    using loadConfig_success [of env' options' "JObj kvs"] by blast
  from loadConfig_globals_form [OF this] obtain m
    where "NewConfig.globals config' = defaultGlobals ++ m ++ spread (globalOverrides options')" ..
  then have "{''license'', ''baseVersion'', ''private''} \<subseteq> dom (NewConfig.globals config')"
    by (simp only: default_keys_in_overlay)
  with c show "\<exists>config'. loadConfig env' options' = Inr config' \<and>
      {''license'', ''baseVersion'', ''private''} \<subseteq> dom (NewConfig.globals config')"
    by blast
qed

theorem loadConfig_globals_default_keys_witness:
  "\<exists>config. loadConfig (manifestEnv bareManifest) licenseOverride = Inr config \<and>
      {''license'', ''baseVersion'', ''private''} \<subseteq> dom (NewConfig.globals config)"
proof -
  let ?env = "manifestEnv bareManifest"
  have r: "readJson ?env (pkgPathOf ?env licenseOverride) =
      Inr (JObj [(''name'', JStr ''root''), (''version'', JStr ''1.0.0'')])"
    by (simp add: manifestEnv_def pkgPathOf_def licenseOverride_def bareManifest_def)
  have b: "map_of [(''name'', JStr ''root''), (''version'', JStr (''1.0.0''))] ''backstage''
      = (None :: int json option)"
    by simp
  from r b have "readJson ?env (pkgPathOf ?env licenseOverride) =
      Inr (JObj [(''name'', JStr ''root''), (''version'', JStr ''1.0.0'')]) \<and>
    map_of [(''name'', JStr ''root''), (''version'', JStr (''1.0.0'') :: int json)] ''backstage'' = None"
    by (rule conjI)
  with loadConfig_globals_default_keys [THEN conjunct2, of ?env licenseOverride
      "[(''name'', JStr ''root''), (''version'', JStr ''1.0.0'')]"]
  show ?thesis by (rule mp)
qed

section \<open>Properties of the date parsing\<close>






























section \<open>The claims about the issue creation action\<close>

lemma handler_after_date:
  assumes "mappedDueDate input = Inr due"
  shows "clientCalls (handler env input) =
           [(projectId input, title input, issueOptions env input due)]"
    and "create env (effectiveToken env input) (projectId input) (title input)
           (issueOptions env input due) = Inr response \<Longrightarrow>
         result (handler env input) = Inr () \<and>
         outputs (handler env input) =
           [(''issueId'', OutNumber (IssueResponse.id' response)),
            (''issueUrl'', OutString (web_url response))]"
    and "create env (effectiveToken env input) (projectId input) (title input)
           (issueOptions env input due) = Inl e \<Longrightarrow>
         result (handler env input) = Inl (TrackerClientError e) \<and>
         outputs (handler env input) = []"
  using assms by (auto simp: handler_def Let_def split: sum.splits)



lemma mappedDueDate_minimal: "mappedDueDate (minimalInput r p t) = Inr None"
  by (simp add: mappedDueDate_def minimalInput_def)


text \<open>
  Claim C6. For an input that has only \<^verbatim>\<open>repoUrl\<close>, \<^verbatim>\<open>projectId\<close> and \<^verbatim>\<open>title\<close>, the handler
  calls the client's \<^verbatim>\<open>create\<close> exactly once, with \<^verbatim>\<open>(projectId, title, options)\<close>, where
  \<^verbatim>\<open>description\<close>, \<^verbatim>\<open>labels\<close> and \<^verbatim>\<open>discussionToResolve\<close> are the empty string,
  \<^verbatim>\<open>assigneeIds\<close> is empty, \<^verbatim>\<open>confidential\<close> is false and \<^verbatim>\<open>issueType\<close> is \<^verbatim>\<open>undefined\<close>; when
  the call resolves, the handler succeeds and emits exactly two outputs, \<^verbatim>\<open>issueId\<close> with
  the \<^verbatim>\<open>id\<close> of the response and \<^verbatim>\<open>issueUrl\<close> with its \<^verbatim>\<open>web_url\<close>.
\<close>

theorem handler_minimal_input:
  "\<exists>options.
     clientCalls (handler env (minimalInput r p t)) = [(p, t, options)] \<and>
     IssueOptions.description options = '''' \<and>
     assigneeIds options = [] \<and>
     IssueOptions.confidential options = False \<and>
     IssueOptions.labels options = '''' \<and>
     IssueOptions.discussionToResolve options = '''' \<and>
     IssueOptions.issueType options = None \<and>
     (\<forall>response.
        create env (effectiveToken env (minimalInput r p t)) p t options = Inr response \<longrightarrow>
        result (handler env (minimalInput r p t)) = Inr () \<and>
        outputs (handler env (minimalInput r p t)) =
          [(''issueId'', OutNumber (IssueResponse.id' response)),
           (''issueUrl'', OutString (web_url response))])"
proof -
  let ?input = "minimalInput r p t"
  let ?options = "issueOptions env ?input None"
  have pt: "projectId ?input = p" "title ?input = t"
    by (simp_all add: minimalInput_def)
  have "clientCalls (handler env ?input) = [(p, t, ?options)]"
    using handler_after_date(1) [OF mappedDueDate_minimal [of r p t], where env = env] by (simp add: pt)
  moreover have "IssueOptions.description ?options = [] \<and> assigneeIds ?options = [] \<and>
      IssueOptions.confidential ?options = False \<and> IssueOptions.labels ?options = [] \<and>
      IssueOptions.discussionToResolve ?options = [] \<and> IssueOptions.issueType ?options = None"
    by (simp add: issueOptions_def minimalInput_def orElse_def)
  moreover have "\<forall>response.
        create env (effectiveToken env ?input) p t ?options = Inr response \<longrightarrow>
        result (handler env ?input) = Inr () \<and>
        outputs (handler env ?input) =
          [(''issueId'', OutNumber (IssueResponse.id' response)),
           (''issueUrl'', OutString (web_url response))]"
    using handler_after_date(2) [OF mappedDueDate_minimal [of r p t], where env = env] by (simp add: pt)
  ultimately show ?thesis by blast
qed

theorem handler_minimal_input_witness:
  "\<exists>options.
     clientCalls (handler mockEnv minimalTestInput) =
       [(123, ''Computer banks to rule the world'', options)] \<and>
     IssueOptions.description options = '''' \<and>
     assigneeIds options = [] \<and>
     IssueOptions.confidential options = False \<and>
     IssueOptions.labels options = '''' \<and>
     IssueOptions.discussionToResolve options = '''' \<and>
     IssueOptions.issueType options = None \<and>
     result (handler mockEnv minimalTestInput) = Inr () \<and>
     outputs (handler mockEnv minimalTestInput) =
       [(''issueId'', OutNumber 42),
        (''issueUrl'', OutString ''https://gitlab.com/hangar18-/issues/42'')]"
proof -
  have c: "create mockEnv tok p t options = Inr mockResponse" for tok p t options
    by (simp add: mockEnv_def)
  have r: "IssueResponse.id' mockResponse = 42"
    "web_url mockResponse = ''https://gitlab.com/hangar18-/issues/42''"
    by (simp_all add: mockResponse_def)
  from handler_minimal_input [of mockEnv "''gitlab.com?repo=repo&owner=owner''" 123
      "''Computer banks to rule the world''"]
  obtain options where
    1: "clientCalls (handler mockEnv minimalTestInput) =
          [(123, ''Computer banks to rule the world'', options)]"
    and 2: "IssueOptions.description options = []" "assigneeIds options = []"
      "IssueOptions.confidential options = False" "IssueOptions.labels options = []"
      "IssueOptions.discussionToResolve options = []" "IssueOptions.issueType options = None"
    and 3: "\<forall>response.
        create mockEnv (effectiveToken mockEnv minimalTestInput) 123
          ''Computer banks to rule the world'' options = Inr response \<longrightarrow>
        result (handler mockEnv minimalTestInput) = Inr () \<and>
        outputs (handler mockEnv minimalTestInput) =
          [(''issueId'', OutNumber (IssueResponse.id' response)),
           (''issueUrl'', OutString (web_url response))]"
    unfolding minimalTestInput_def [symmetric] by (elim exE conjE) (rule that; assumption)
  from 3 have "result (handler mockEnv minimalTestInput) = Inr () \<and>
        outputs (handler mockEnv minimalTestInput) =
          [(''issueId'', OutNumber (IssueResponse.id' mockResponse)),
           (''issueUrl'', OutString (web_url mockResponse))]"
    by (simp add: c)
  with 1 2 show ?thesis unfolding r by (intro exI [of _ options]) simp
qed







end
